theory Spec2Isabelle
  imports Main "HOL-Library.Word"
begin

section \<open>Thread interception layer (pthreadwrappers.cpp)\<close>

subsection \<open>Data\<close>

text \<open>
  A \<open>pthread_t\<close> and a \<open>void *\<close> are only stored, compared and passed on, so both
  are natural numbers here; \<open>nullptr\<close> is 0. A \<open>ThreadInfo *\<close> is an address into the
  heap of \<open>ThreadInfo\<close> objects. The fields of \<open>struct timespec\<close> are signed and are
  only compared with constants.
\<close>

type_synonym pthread_t = nat
type_synonym ptr = nat
type_synonym thread_ref = nat

record timespec =
  tv_sec :: int
  tv_nsec :: int

text \<open>The error numbers of \<open>errno.h\<close> on Linux.\<close>

definition ESRCH :: int where "ESRCH = 3"
definition EBUSY :: int where "EBUSY = 16"
definition EINVAL :: int where "EINVAL = 22"
definition ETIMEDOUT :: int where "ETIMEDOUT = 110"

text \<open>
  Modelled from the spec: \<open>checkpoint/ThreadInfo.h\<close> is not among the sources. The
  lifecycle states are the five the specification lists; the source names two of them,
  \<open>ST_RUNNING\<close> and \<open>ST_ZOMBIE\<close>. The fields are those the wrappers read or write.
\<close>

datatype ThreadState = ST_UNINITIALIZED | ST_RUNNING | ST_PARKED | ST_ZOMBIE | ST_QUIT

record ThreadInfo =
  state :: ThreadState
  pthread_id :: pthread_t
  start :: nat
  arg :: ptr
  detached :: bool
  retval :: ptr
  quit :: bool

text \<open>
  Modelled from the spec: \<open>checkpoint/ThreadManager.cpp\<close> is not among the sources.
  The registry is the list of logical threads, looked up by \<open>pthread_t\<close>, together
  with the \<open>ThreadInfo\<close> objects the list points to.
\<close>

record registry =
  thread_list :: "pthread_t \<rightharpoonup> thread_ref"
  heap :: "thread_ref \<Rightarrow> ThreadInfo"

text \<open>
  What a wrapper calls outside its own file and outside the registry: \<open>ThreadSync\<close>,
  the logger, the real pthread functions (\<open>orig::\<close>), the condition variable of a
  thread and the TLS functions of libc. Each call is recorded in order.
\<close>

datatype call =
    WrapperExecutionLockLock
  | WrapperExecutionLockUnlock
  | WaitForThreadsToFinishInitialization
  | IncrementUninitializedThreadCount
  | DecrementUninitializedThreadCount
  | Debuglog string
  | NativeNanosleep timespec
  | OrigPthreadCreate thread_ref
  | CvNotifyAll thread_ref
  | CvWait thread_ref
  | OrigPthreadExit ptr
  | OrigPthreadJoin pthread_t
  | OrigPthreadDetach pthread_t
  | OrigPthreadTryjoin pthread_t
  | OrigPthreadTimedjoin pthread_t timespec
  | ClearPthreadKeys
  | CallTlsDtors
  | LibcThreadFreeres
  | DlAllocateTlsInit pthread_t

text \<open>
  The state a wrapper runs in: the registry, the calls made so far, and what the other
  threads of the program will do while this one sleeps. Each element of \<open>others\<close>
  lists the threads whose routine returns during one \<open>nanosleep\<close>, with the value
  returned; once the list is used up no other thread makes progress any more.
\<close>

record world =
  reg :: registry
  calls :: "call list"
  others :: "(thread_ref \<times> ptr) list list"

text \<open>\<open>shared_config.recycle_threads\<close> and \<open>GlobalState::isNative()\<close>.\<close>

record config =
  recycle_threads :: bool
  isNative :: bool

text \<open>
  The functions of \<open>ThreadManager\<close> whose code is not among the sources and whose
  effect on the registry no wrapper depends on: they are parameters of the model.
\<close>

record ThreadManager =
  getNewThread :: "registry \<Rightarrow> thread_ref \<times> registry"
  initThreadFromParent :: "thread_ref \<Rightarrow> nat \<Rightarrow> ptr \<Rightarrow> registry \<Rightarrow> bool \<times> registry"
  initThreadFromChild :: "thread_ref \<Rightarrow> registry \<Rightarrow> registry"
  update :: "thread_ref \<Rightarrow> registry \<Rightarrow> registry"
  setCurrentThread :: "thread_ref \<Rightarrow> registry \<Rightarrow> registry"
  threadDetach :: "pthread_t \<Rightarrow> registry \<Rightarrow> registry"
  threadIsDead :: "thread_ref \<Rightarrow> registry \<Rightarrow> registry"

subsection \<open>Registry operations\<close>

text \<open>
  Modelled from the spec: \<open>ThreadManager::getThread\<close> (the registry's lookup by
  handle) is not among the sources. It returns the \<open>ThreadInfo\<close> of the identity, or
  null when the identity is unknown. Whether the list still holds a thread once it is
  detached is left open: the wrappers test the \<open>detached\<close> flag of the thread they
  are given.
\<close>

definition getThread :: "registry \<Rightarrow> pthread_t \<Rightarrow> thread_ref option" where
  "getThread r pth = thread_list r pth"

text \<open>
  Modelled from the spec: \<open>ThreadManager::threadExit\<close> is not among the sources. On
  routine return or exit the logical thread goes to \<open>ST_ZOMBIE\<close> and its return
  value slot is filled.
\<close>

definition threadExit :: "thread_ref \<Rightarrow> ptr \<Rightarrow> registry \<Rightarrow> registry" where
  "threadExit thread ret r =
     r\<lparr>heap := (heap r)(thread := (heap r thread)\<lparr>state := ST_ZOMBIE, retval := ret\<rparr>)\<rparr>"

definition call :: "call \<Rightarrow> world \<Rightarrow> world" where
  "call c w = w\<lparr>calls := calls w @ [c]\<rparr>"

definition debuglog :: "string \<Rightarrow> world \<Rightarrow> world" where
  "debuglog s w = call (Debuglog s) w"

text \<open>
  The routine of a running thread returns while the caller sleeps: its trampoline
  calls \<open>ThreadManager::threadExit\<close>.
\<close>

definition routine_returns :: "thread_ref \<times> ptr \<Rightarrow> registry \<Rightarrow> registry" where
  "routine_returns e r =
     (if state (heap r (fst e)) = ST_RUNNING then threadExit (fst e) (snd e) r else r)"

text \<open>\<open>NATIVECALL(nanosleep(ts, NULL))\<close>: the other threads run meanwhile.\<close>

definition nanosleep :: "timespec \<Rightarrow> world \<Rightarrow> world" where
  "nanosleep ts w =
     (case others w of
        [] \<Rightarrow> call (NativeNanosleep ts) w
      | e # es \<Rightarrow>
          call (NativeNanosleep ts) (w\<lparr>reg := fold routine_returns e (reg w), others := es\<rparr>))"

subsection \<open>pthread_timedjoin_np\<close>

text \<open>
  The result is the value returned, what was stored through \<open>retval\<close> (nothing when
  the pointer is null or the path does not store), and the state afterwards.
  \<open>orig\<close> is the answer of the real \<open>pthread_timedjoin_np\<close>: its return value and
  what it stored through \<open>retval\<close>.
\<close>

definition pthread_timedjoin_np ::
  "ThreadManager \<Rightarrow> config \<Rightarrow> int \<times> ptr option \<Rightarrow> pthread_t \<Rightarrow> bool \<Rightarrow> timespec \<Rightarrow> world
     \<Rightarrow> int \<times> ptr option \<times> world" where
  "pthread_timedjoin_np tm cfg orig pth retval_p abstime w =
    (if isNative cfg then
       (fst orig, snd orig, call (OrigPthreadTimedjoin pth abstime) w)
     else
       let w1 = debuglog ''Try to join thread in ''
                  (call WaitForThreadsToFinishInitialization (call WrapperExecutionLockLock w))
       in
       if tv_sec abstime < 0 \<or> tv_nsec abstime \<ge> 1000000000 then
         (EINVAL, None, call WrapperExecutionLockUnlock w1)
       else
         case getThread (reg w1) pth of
           None \<Rightarrow> (ESRCH, None, call WrapperExecutionLockUnlock w1)
         | Some thread \<Rightarrow>
             if detached (heap (reg w1) thread) then
               (EINVAL, None, call WrapperExecutionLockUnlock w1)
             else
               let (ret, out, w3) =
                 (if recycle_threads cfg then
                    let w2 = nanosleep abstime w1 in
                    if state (heap (reg w2) thread) = ST_ZOMBIE then
                      (0,
                       if retval_p then Some (ThreadInfo.retval (heap (reg w2) thread)) else None,
                       w2\<lparr>reg := threadDetach tm pth (reg w2)\<rparr>)
                    else (ETIMEDOUT, None, w2)
                  else
                    let w2 = call (OrigPthreadTimedjoin pth abstime) w1 in
                    if fst orig = 0 then
                      (fst orig, snd orig, w2\<lparr>reg := threadDetach tm pth (reg w2)\<rparr>)
                    else (fst orig, snd orig, w2));
                 w4 = (if ret = 0 then debuglog ''Joining thread successfully.'' w3
                       else debuglog ''Call timed out before thread terminated.'' w3)
               in (ETIMEDOUT, out, call WrapperExecutionLockUnlock w4))"

subsection \<open>pthread_tryjoin_np\<close>

definition pthread_tryjoin_np ::
  "ThreadManager \<Rightarrow> config \<Rightarrow> int \<times> ptr option \<Rightarrow> pthread_t \<Rightarrow> bool \<Rightarrow> world
     \<Rightarrow> int \<times> ptr option \<times> world" where
  "pthread_tryjoin_np tm cfg orig pth retval_p w =
    (if isNative cfg then
       (fst orig, snd orig, call (OrigPthreadTryjoin pth) w)
     else
       let w1 = debuglog ''Try to join thread ''
                  (call WaitForThreadsToFinishInitialization (call WrapperExecutionLockLock w))
       in
       case getThread (reg w1) pth of
         None \<Rightarrow> (ESRCH, None, call WrapperExecutionLockUnlock w1)
       | Some thread \<Rightarrow>
           if detached (heap (reg w1) thread) then
             (EINVAL, None, call WrapperExecutionLockUnlock w1)
           else
             let (ret, out, w3) =
               (if recycle_threads cfg then
                  if state (heap (reg w1) thread) = ST_ZOMBIE then
                    (0,
                     if retval_p then Some (retval (heap (reg w1) thread)) else None,
                     w1\<lparr>reg := threadDetach tm pth (reg w1)\<rparr>)
                  else (EBUSY, None, w1)
                else
                  let w2 = call (OrigPthreadTryjoin pth) w1 in
                  if fst orig = 0 then
                    (fst orig, snd orig, w2\<lparr>reg := threadDetach tm pth (reg w2)\<rparr>)
                  else (fst orig, snd orig, w2));
               w4 = (if ret = 0 then debuglog ''Joining thread successfully.'' w3
                     else debuglog ''Thread has not yet terminated.'' w3)
             in (EBUSY, out, call WrapperExecutionLockUnlock w4))"

subsection \<open>pthread_join\<close>

text \<open>
  The polling loop of \<open>pthread_join\<close>: sleep one millisecond until the thread is a
  zombie. When the thread is not a zombie and no other thread will make progress
  any more, the loop never ends: the result is \<open>None\<close>.
\<close>

function wait_zombie :: "thread_ref \<Rightarrow> world \<Rightarrow> world option" where
  "wait_zombie thread w =
     (if state (heap (reg w) thread) = ST_ZOMBIE then Some w
      else if others w = [] then None
      else wait_zombie thread (nanosleep \<lparr>tv_sec = 0, tv_nsec = 1000 * 1000\<rparr> w))"
  by pat_completeness auto
termination
  by (relation "measure (\<lambda>(thread, w). length (others w))")
     (auto simp: nanosleep_def call_def split: list.splits)

declare wait_zombie.simps [simp del]

text \<open>
  \<open>orig\<close> is the answer of the real \<open>pthread_join\<close>. With recycling the value of
  the routine is not stored through \<open>thread_return\<close>. \<open>None\<close>: the call never
  returns.
\<close>

definition pthread_join ::
  "ThreadManager \<Rightarrow> config \<Rightarrow> int \<times> ptr option \<Rightarrow> pthread_t \<Rightarrow> world
     \<Rightarrow> (int \<times> ptr option \<times> world) option" where
  "pthread_join tm cfg orig pth w =
    (if isNative cfg then
       Some (fst orig, snd orig, call (OrigPthreadJoin pth) w)
     else
       let w1 = debuglog ''Joining thread ''
                  (call WaitForThreadsToFinishInitialization (call WrapperExecutionLockLock w))
       in
       case getThread (reg w1) pth of
         None \<Rightarrow> Some (ESRCH, None, call WrapperExecutionLockUnlock w1)
       | Some thread \<Rightarrow>
           if detached (heap (reg w1) thread) then
             Some (EINVAL, None, call WrapperExecutionLockUnlock w1)
           else if recycle_threads cfg then
             (case wait_zombie thread w1 of
                None \<Rightarrow> None
              | Some w2 \<Rightarrow>
                  Some (0, None,
                        call WrapperExecutionLockUnlock
                          (w2\<lparr>reg := threadDetach tm pth (reg w2)\<rparr>)))
           else
             let w2 = call (OrigPthreadJoin pth) w1 in
             Some (fst orig, snd orig,
                   call WrapperExecutionLockUnlock
                     (w2\<lparr>reg := threadDetach tm pth (reg w2)\<rparr>)))"

subsection \<open>pthread_detach\<close>

text \<open>\<open>orig\<close> is the return value of the real \<open>pthread_detach\<close>.\<close>

definition pthread_detach ::
  "ThreadManager \<Rightarrow> config \<Rightarrow> int \<Rightarrow> pthread_t \<Rightarrow> world \<Rightarrow> int \<times> world" where
  "pthread_detach tm cfg orig pth w =
    (if isNative cfg then (orig, call (OrigPthreadDetach pth) w)
     else
       let w1 = debuglog ''Detaching thread ''
                  (call WaitForThreadsToFinishInitialization (call WrapperExecutionLockLock w))
       in
       case getThread (reg w1) pth of
         None \<Rightarrow> (ESRCH, call WrapperExecutionLockUnlock w1)
       | Some thread \<Rightarrow>
           if detached (heap (reg w1) thread) then
             (EINVAL, call WrapperExecutionLockUnlock w1)
           else
             let (ret, w2) =
               (if \<not> recycle_threads cfg then (orig, call (OrigPthreadDetach pth) w1)
                else (0, w1))
             in (ret, call WrapperExecutionLockUnlock
                        (w2\<lparr>reg := threadDetach tm pth (reg w2)\<rparr>)))"

subsection \<open>pthread_create\<close>

text \<open>The detach states of \<open>pthread.h\<close> on Linux.\<close>

definition PTHREAD_CREATE_JOINABLE :: int where "PTHREAD_CREATE_JOINABLE = 0"
definition PTHREAD_CREATE_DETACHED :: int where "PTHREAD_CREATE_DETACHED = 1"

text \<open>
  \<open>attr\<close> is \<open>None\<close> for a null attribute pointer and otherwise holds the detach
  state that \<open>pthread_attr_getdetachstate\<close> reads from it. \<open>orig\<close> is the answer of
  the real \<open>pthread_create\<close>, called with \<open>pthread_start\<close> as entry point and the
  \<open>ThreadInfo\<close> as its argument (the call \<open>OrigPthreadCreate thread\<close>): its return
  value and the identity it stores through \<open>tid_p\<close>. The result is the value
  returned, what was stored through \<open>tid_p\<close>, and the state afterwards.
\<close>

definition pthread_create ::
  "ThreadManager \<Rightarrow> int \<times> pthread_t option \<Rightarrow> int option \<Rightarrow> nat \<Rightarrow> ptr \<Rightarrow> world
     \<Rightarrow> int \<times> pthread_t option \<times> world" where
  "pthread_create tm orig attr start_routine a w =
    (let w1 = call IncrementUninitializedThreadCount
                (call WrapperExecutionLockLock
                   (debuglog ''Thread is created with routine '' w));
         (thread, r1) = getNewThread tm (reg w1);
         (isRecycled, r2) = initThreadFromParent tm thread start_routine a r1;
         (detachstate, w2) =
           (case attr of
              None \<Rightarrow> (PTHREAD_CREATE_JOINABLE, w1)
            | Some d \<Rightarrow> (d, debuglog ''Default state is '' (debuglog ''Detached state is '' w1)));
         r3 = r2\<lparr>heap := (heap r2)
                (thread := (heap r2 thread)\<lparr>detached := (detachstate = PTHREAD_CREATE_DETACHED)\<rparr>)\<rparr>;
         w3 = w2\<lparr>reg := r3\<rparr>
     in
     if isRecycled then
       (0, Some (pthread_id (heap r3 thread)),
        call WrapperExecutionLockUnlock
          (call (CvNotifyAll thread) (debuglog ''Recycling thread '' w3)))
     else
       let w4 = call (OrigPthreadCreate thread) w3 in
       if fst orig \<noteq> 0 then
         (fst orig, snd orig,
          call WrapperExecutionLockUnlock
            ((call DecrementUninitializedThreadCount w4)\<lparr>reg := threadIsDead tm thread r3\<rparr>))
       else (fst orig, snd orig, call WrapperExecutionLockUnlock w4))"

subsection \<open>pthread_exit\<close>

text \<open>
  \<open>pthread_exit\<close> does not return to its caller: it throws \<open>ThreadExitException\<close>,
  or the real \<open>pthread_exit\<close> ends the OS thread. \<open>current\<close> is the thread that
  calls, the one \<open>ThreadManager::threadExit\<close> acts on.
\<close>

datatype exit_effect = ThreadExitException | OsThreadEnded

definition pthread_exit :: "config \<Rightarrow> thread_ref \<Rightarrow> ptr \<Rightarrow> world \<Rightarrow> exit_effect \<times> world" where
  "pthread_exit cfg current v w =
    (let w1 = debuglog ''Thread has exited.'' w in
     if recycle_threads cfg then (ThreadExitException, w1)
     else (OsThreadEnded, call (OrigPthreadExit v) (w1\<lparr>reg := threadExit current v (reg w1)\<rparr>)))"

subsection \<open>pthread_start\<close>

text \<open>
  What a start routine of the program does when it is run: it returns a value, it calls
  \<open>pthread_exit\<close> with a value, or it never ends. The program is a table from
  routine and argument to that.
\<close>

datatype routine_end = Returns ptr | CallsPthreadExit ptr | NeverEnds

type_synonym program = "nat \<Rightarrow> ptr \<Rightarrow> routine_end"

text \<open>How the OS thread that runs \<open>pthread_start\<close> ends.\<close>

datatype thread_end = ReturnedNullptr | EndedByPthreadExit | InsideRoutine | WaitingOnCv

text \<open>
  The code after the routine: the TLS values are unset, the thread is made current
  again and \<open>ThreadManager::threadExit\<close> is called with \<open>ret\<close>.
\<close>

definition after_routine :: "ThreadManager \<Rightarrow> thread_ref \<Rightarrow> ptr \<Rightarrow> world \<Rightarrow> world" where
  "after_routine tm thread ret w =
    (let w1 = call (DlAllocateTlsInit (pthread_id (heap (reg w) thread)))
                (call LibcThreadFreeres
                   (call CallTlsDtors
                      (call ClearPthreadKeys (debuglog ''End of thread code'' w))));
         w2 = w1\<lparr>reg := setCurrentThread tm thread (reg w1)\<rparr>
     in w2\<lparr>reg := threadExit thread ret (reg w2)\<rparr>)"

text \<open>
  The branch of the loop for a thread in \<open>ST_RUNNING\<close>. The local \<open>ret\<close> is
  declared without a value and is assigned only when the routine returns; \<open>uninit\<close>
  is what it holds otherwise. The result is \<open>None\<close> when the OS thread goes on to
  the loop test, and how it ended otherwise.
\<close>

definition run_routine ::
  "ThreadManager \<Rightarrow> config \<Rightarrow> program \<Rightarrow> ptr \<Rightarrow> thread_ref \<Rightarrow> world \<Rightarrow> thread_end option \<times> world" where
  "run_routine tm cfg prog uninit thread w =
    (let w1 = debuglog ''Beginning of thread code ''
                (call DecrementUninitializedThreadCount
                   (w\<lparr>reg := update tm thread (reg w)\<rparr>))
     in
     case prog (start (heap (reg w1) thread)) (arg (heap (reg w1) thread)) of
       Returns v \<Rightarrow> (None, after_routine tm thread v w1)
     | CallsPthreadExit v \<Rightarrow>
         (case pthread_exit cfg thread v w1 of
            (ThreadExitException, w2) \<Rightarrow> (None, after_routine tm thread uninit w2)
          | (OsThreadEnded, w2) \<Rightarrow> (Some EndedByPthreadExit, w2))
     | NeverEnds \<Rightarrow> (Some InsideRoutine, w1))"

lemma state_after_routine [simp]:
  "state (heap (reg (after_routine tm thread ret w)) thread) = ST_ZOMBIE"
  by (simp add: after_routine_def threadExit_def Let_def)

lemma run_routine_goes_on:
  "run_routine tm cfg prog uninit thread w = (None, w') \<Longrightarrow>
     state (heap (reg w') thread) = ST_ZOMBIE"
  by (auto simp: run_routine_def Let_def split: routine_end.splits prod.splits exit_effect.splits)

text \<open>
  The loop of \<open>pthread_start\<close>. \<open>wakeups\<close> is what the other threads do to the
  registry each time this one waits on its condition variable; when nothing is left
  the thread waits for ever. The mutex of the thread, held except during that wait, is
  not part of the model.
\<close>

function pthread_start_loop ::
  "ThreadManager \<Rightarrow> config \<Rightarrow> program \<Rightarrow> ptr \<Rightarrow> thread_ref \<Rightarrow> (registry \<Rightarrow> registry) list
     \<Rightarrow> world \<Rightarrow> thread_end \<times> world" where
  "pthread_start_loop tm cfg prog uninit thread wakeups w =
    (if state (heap (reg w) thread) = ST_RUNNING then
       (case run_routine tm cfg prog uninit thread w of
          (Some e, w') \<Rightarrow> (e, w')
        | (None, w') \<Rightarrow>
            if \<not> quit (heap (reg w') thread) \<and> recycle_threads cfg then
              pthread_start_loop tm cfg prog uninit thread wakeups w'
            else (ReturnedNullptr, w'))
     else
       (case wakeups of
          [] \<Rightarrow> (WaitingOnCv, call (CvWait thread) w)
        | e # es \<Rightarrow>
            let w' = (call (CvWait thread) w)\<lparr>reg := e (reg w)\<rparr> in
            if \<not> quit (heap (reg w') thread) \<and> recycle_threads cfg then
              pthread_start_loop tm cfg prog uninit thread es w'
            else (ReturnedNullptr, w')))"
  by pat_completeness auto
termination
  by (relation "measure (\<lambda>(tm, cfg, prog, uninit, thread, wakeups, w).
         2 * length wakeups + (if state (heap (reg w) thread) = ST_RUNNING then 1 else 0))")
     (auto dest: run_routine_goes_on [OF sym])

declare pthread_start_loop.simps [simp del]

definition pthread_start ::
  "ThreadManager \<Rightarrow> config \<Rightarrow> program \<Rightarrow> ptr \<Rightarrow> thread_ref \<Rightarrow> (registry \<Rightarrow> registry) list
     \<Rightarrow> world \<Rightarrow> thread_end \<times> world" where
  "pthread_start tm cfg prog uninit thread wakeups w =
     pthread_start_loop tm cfg prog uninit thread wakeups
       (w\<lparr>reg := initThreadFromChild tm thread (reg w)\<rparr>)"



subsection \<open>A thread manager for the examples\<close>

text \<open>
  A plain implementation of the parameters: a detach marks the logical thread, a dead
  thread leaves the list, a new thread takes slot 0 when the thread there is parked
  (it is then recycled) and slot 1 otherwise.
\<close>

definition plain_threadDetach :: "pthread_t \<Rightarrow> registry \<Rightarrow> registry" where
  "plain_threadDetach pth r =
     (case thread_list r pth of
        None \<Rightarrow> r
      | Some th \<Rightarrow> r\<lparr>heap := (heap r)(th := (heap r th)\<lparr>detached := True\<rparr>)\<rparr>)"

definition plain_threadIsDead :: "thread_ref \<Rightarrow> registry \<Rightarrow> registry" where
  "plain_threadIsDead th r =
     r\<lparr>thread_list := (thread_list r)(pthread_id (heap r th) := None)\<rparr>"

definition plain_getNewThread :: "registry \<Rightarrow> thread_ref \<times> registry" where
  "plain_getNewThread r = (if state (heap r 0) = ST_PARKED then (0, r) else (1, r))"

definition plain_initThreadFromParent ::
  "thread_ref \<Rightarrow> nat \<Rightarrow> ptr \<Rightarrow> registry \<Rightarrow> bool \<times> registry" where
  "plain_initThreadFromParent th routine a r =
     (state (heap r th) = ST_PARKED,
      r\<lparr>heap := (heap r)(th := (heap r th)\<lparr>state := ST_RUNNING, start := routine, arg := a\<rparr>)\<rparr>)"

definition plain_tm :: ThreadManager where
  "plain_tm =
     \<lparr>getNewThread = plain_getNewThread,
      initThreadFromParent = plain_initThreadFromParent,
      initThreadFromChild = (\<lambda>th r. r),
      update = (\<lambda>th r. r),
      setCurrentThread = (\<lambda>th r. r),
      threadDetach = plain_threadDetach,
      threadIsDead = plain_threadIsDead\<rparr>"

text \<open>
  One logical thread, identity 7, object 0: running routine 1, joinable. While the
  caller sleeps the first time nothing happens; during the second sleep the routine
  returns 42.
\<close>

definition thread7 :: ThreadInfo where
  "thread7 = \<lparr>state = ST_RUNNING, pthread_id = 7, start = 1, arg = 0,
              detached = False, retval = 0, quit = False\<rparr>"

definition world7 :: world where
  "world7 = \<lparr>reg = \<lparr>thread_list = [7 \<mapsto> 0], heap = (\<lambda>_. thread7)\<rparr>,
             calls = [], others = [[], [(0, 42)]]\<rparr>"

definition recycling :: config where
  "recycling = \<lparr>recycle_threads = True, isNative = False\<rparr>"

text \<open>The same world once thread 7 is detached, and once its routine has returned 42.\<close>

definition world7_detached :: world where
  "world7_detached = world7\<lparr>reg := plain_threadDetach 7 (reg world7)\<rparr>"

definition zombie7 :: world where
  "zombie7 = world7\<lparr>reg := threadExit 0 42 (reg world7)\<rparr>"

text \<open>
  A program for the examples: routine 1 calls \<open>pthread_exit(5)\<close>, every other
  routine returns its argument.
\<close>

definition exiting_program :: program where
  "exiting_program routine a = (if routine = 1 then CallsPthreadExit 5 else Returns a)"

definition not_recycling :: config where
  "not_recycling = \<lparr>recycle_threads = False, isNative = False\<rparr>"

text \<open>A world whose slot 0 holds a parked thread, ready to be recycled.\<close>

definition parked7 :: world where
  "parked7 = world7\<lparr>reg := (reg world7)\<lparr>heap := (\<lambda>_. thread7\<lparr>state := ST_PARKED\<rparr>)\<rparr>\<rparr>"

section \<open>Frame boundary (frame.cpp)\<close>

text \<open>The model is the build with \<open>LIBTAS_ENABLE_HUD\<close> defined.\<close>

subsection \<open>Data\<close>

text \<open>
  \<open>framecount\<close> and \<open>nondraw_framecount\<close> are \<open>unsigned long\<close> (64 bits on
  Linux x86-64), \<open>skip_counter\<close> and \<open>skip_freq\<close> are \<open>unsigned int\<close>: they are
  words, and their arithmetic wraps around. The counters of \<open>computeFPS\<close> are
  \<open>int\<close>s that stay far below the limit of the type.
\<close>

type_synonym ulong = "64 word"
type_synonym uint = "32 word"
type_synonym AllInputs = nat

text \<open>
  The fields of \<open>SharedConfig\<close> and \<open>GameInfo\<close> that \<open>frame.cpp\<close> reads. Both
  structures and their flag constants are declared in headers that are not among the
  sources, so each test of a flag (\<open>fastforward_mode & SharedConfig::FF_RENDERING\<close>,
  \<open>osd & SharedConfig::OSD_FRAMECOUNT\<close>, \<open>game_info.video & GameInfo::SDL1\<close>, ...) is a
  boolean field here.
\<close>

record SharedConfig =
  fastforward :: bool
  running :: bool
  av_dumping :: bool
  ff_rendering :: bool
  backtrack_savestate :: bool
  save_screenpixels :: bool
  osd_encode :: bool
  osd_framecount :: bool
  osd_inputs :: bool
  osd_messages :: bool
  osd_ramwatches :: bool
  debug_native_events :: bool
  initial_framecount :: ulong

record GameInfo =
  tosend :: bool
  video_sdl1 :: bool
  video_sdl2 :: bool

text \<open>
  What the frame boundary needs from the machine and from collaborators that are not
  among the sources. \<open>'f\<close> is the type \<open>float\<close>: the comparison \<open>fps > 1\<close>, the
  decrement \<open>fps--\<close>, the 32 bits that \<open>memcpy\<close> reads from a float, the conversion
  \<open>static_cast<int>\<close>, and the quotient
  \<open>static_cast<float>(deltaFrames) * 1000000000.0f / (delta.tv_sec * 1000000000.0f + delta.tv_nsec)\<close>
  for the difference \<open>delta\<close> of two times. \<open>clock_monotonic\<close> is the time that
  \<open>clock_gettime(CLOCK_MONOTONIC)\<close> gives during the frame boundary of a frame count;
  \<open>enter_ticks\<close> and \<open>exit_ticks\<close> are what \<open>detTimer.enterFrameBoundary()\<close> and
  \<open>detTimer.exitFrameBoundary()\<close> do to the ticks of the deterministic timer.
\<close>

record 'f platform =
  gt_one :: "'f \<Rightarrow> bool"
  decrement :: "'f \<Rightarrow> 'f"
  bits :: "'f \<Rightarrow> uint"
  to_int :: "'f \<Rightarrow> int"
  rate :: "ulong \<Rightarrow> timespec \<Rightarrow> timespec \<Rightarrow> 'f"
  clock_monotonic :: "ulong \<Rightarrow> timespec"
  enter_ticks :: "timespec \<Rightarrow> timespec"
  exit_ticks :: "timespec \<Rightarrow> timespec"

text \<open>
  The messages of the controller, each with the payload that the code reads after the
  tag. The flag of \<open>MSGN_SAVESTATE\<close> is the value of
  \<open>ThreadManager::restoreInProgress\<close> when \<open>ThreadManager::checkpoint()\<close> returns:
  true when the process has been restored to this checkpoint. The flag of
  \<open>MSGN_LOADSTATE\<close> says whether \<open>ThreadManager::restore()\<close> fails and returns;
  when it succeeds the state of the process is replaced and control continues from the
  checkpoint. \<open>MSGN_OTHER\<close> is any tag that is not one of the others.
\<close>

datatype in_msg =
    MSGN_USERQUIT
  | MSGN_CONFIG SharedConfig
  | MSGN_DUMP_FILE string string
  | MSGN_ALL_INPUTS AllInputs
  | MSGN_EXPOSE
  | MSGN_PREVIEW_INPUTS AllInputs
  | MSGN_SAVESTATE_PATH string
  | MSGN_SAVESTATE_INDEX int
  | MSGN_SAVESTATE bool
  | MSGN_LOADSTATE bool
  | MSGN_STOP_ENCODE
  | MSGN_OSD_MSG string
  | MSGN_END_FRAMEBOUNDARY
  | MSGN_RAMWATCH string
  | MSGN_OTHER int

text \<open>The messages sent to the controller, each with the data sent after the tag.\<close>

datatype 'f out_msg =
    MSGB_ALERT_MSG string
  | MSGB_FRAMECOUNT_TIME ulong timespec
  | MSGB_GAMEINFO GameInfo
  | MSGB_FPS 'f 'f
  | MSGB_DO_BACKTRACK_SAVESTATE
  | MSGB_START_FRAMEBOUNDARY
  | MSGB_LOADING_SUCCEEDED

text \<open>The calls into other modules, recorded in order.\<close>

datatype effect =
    SetMainThread
  | ResetWatches
  | InsertWatch string
  | WindowTitleUpdate
  | WindowTitleUpdateNoFps
  | StorePixels
  | SetPixels
  | HudResetOffsets
  | HudRenderFrame ulong
  | HudRenderInputs AllInputs
  | HudRenderPreviewInputs AllInputs
  | HudRenderMessages
  | HudRenderWatches
  | HudInsertMessage string
  | NewAVEncoder
  | EncodeOneFrame bool
  | DeleteAVEncoder
  | Draw
  | PushNativeSDLEvents
  | PushNativeXlibEvents
  | UpdateGameInputs
  | GenerateKeyUpEvents
  | GenerateKeyDownEvents
  | GenerateControllerAdded
  | GenerateControllerEvents
  | GenerateMouseMotionEvents
  | GenerateMouseButtonEvents
  | SyncEvents
  | InsertSDL1Quit
  | InsertSDL2Quit
  | SendWmDeleteWindow
  | SetSavestatePath string
  | SetSavestateIndex int
  | Checkpoint
  | SetCurrentToParent
  | Restore
  | Log string

text \<open>
  The globals and the function-local statics of \<open>frame.cpp\<close>, the globals of other
  modules it reads or writes, the pending alerts, the ticks of the deterministic timer,
  the messages sent so far and the calls made so far. The three arrays of
  \<open>computeFPS\<close> are indexed by \<open>compute_counter\<close>.
\<close>

record 'f frame_state =
  framecount :: ulong
  nondraw_framecount :: ulong
  didASavestate :: bool
  saveBacktrack :: bool
  skipping_draw :: bool
  skip_counter :: uint
  fps :: 'f
  lfps :: 'f
  can_output :: bool
  fps_refresh_freq :: int
  refresh_counter :: int
  compute_counter :: int
  lastFrames :: "int \<Rightarrow> ulong"
  lastTimes :: "int \<Rightarrow> timespec"
  lastTicks :: "int \<Rightarrow> timespec"
  shared_config :: SharedConfig
  game_info :: GameInfo
  is_exiting :: bool
  avencoder :: bool
  dumpfile :: string
  ffmpeg_options :: string
  ai :: AllInputs
  alerts :: "string list"
  ticks :: timespec
  sent :: "'f out_msg list"
  effects :: "effect list"

text \<open>
  How a frame boundary ends when it does not return: it waits for a message that does
  not come, the process state is replaced by a restored snapshot, \<open>MYASSERT\<close> fails
  (the macro is not among the sources; the model stops there), or a shift count is not
  below the width of the type, which C++ leaves undefined.
\<close>

datatype stop = WaitingForMessage | StateRestored | AssertFailed | UndefinedShift

definition effect :: "effect \<Rightarrow> 'f frame_state \<Rightarrow> 'f frame_state" where
  "effect e s = s\<lparr>effects := effects s @ [e]\<rparr>"

definition send :: "'f out_msg \<Rightarrow> 'f frame_state \<Rightarrow> 'f frame_state" where
  "send m s = s\<lparr>sent := sent s @ [m]\<rparr>"

subsection \<open>computeFPS\<close>

text \<open>The division of C++ on \<open>int\<close> truncates towards zero; the divisor here is 4.\<close>

definition int_div :: "int \<Rightarrow> int \<Rightarrow> int" where
  "int_div a b = (if a < 0 then - ((- a) div b) else a div b)"

definition history_length :: int where "history_length = 10"

definition computeFPS :: "'f platform \<Rightarrow> 'f frame_state \<Rightarrow> 'f frame_state" where
  "computeFPS pf s =
    (let s1 = (if \<not> fastforward (shared_config s) then s\<lparr>fps_refresh_freq := 10\<rparr> else s);
         rc = refresh_counter s1 + 1
     in
     if rc \<ge> fps_refresh_freq s1 then
       let i = compute_counter s1;
           lastFrame = lastFrames s1 i;
           lastTime = lastTimes s1 i;
           lastTick = lastTicks s1 i;
           newTime = clock_monotonic pf (framecount s1);
           newTick = ticks s1;
           deltaFrames = framecount s1 - lastFrame;
           cc = i + 1;
           s2 = s1\<lparr>refresh_counter := 0,
                   lastFrames := (lastFrames s1)(i := framecount s1),
                   lastTimes := (lastTimes s1)(i := newTime),
                   lastTicks := (lastTicks s1)(i := newTick),
                   compute_counter := (if cc \<ge> history_length then 0 else cc),
                   can_output := (cc \<ge> history_length \<or> can_output s1)\<rparr>
       in
       if can_output s2 then
         let f = rate pf deltaFrames newTime lastTime;
             lf = rate pf deltaFrames newTick lastTick
         in s2\<lparr>fps := f, lfps := lf,
                fps_refresh_freq :=
                  (if fastforward (shared_config s2) then int_div (to_int pf f) 4
                   else fps_refresh_freq s2)\<rparr>
       else s2
     else s1\<lparr>refresh_counter := rc\<rparr>)"

subsection \<open>skipDraw\<close>

text \<open>\<open>1U << n\<close> for an \<open>unsigned int\<close> count: undefined from 32 on.\<close>

definition shift_one :: "uint \<Rightarrow> stop + uint" where
  "shift_one n = (if n < 32 then Inr (push_bit (unat n) 1) else Inl UndefinedShift)"

text \<open>
  The result is the decision (true: skip the draw) and the new value of the static
  \<open>skip_counter\<close>.
\<close>

definition skipDraw :: "'f platform \<Rightarrow> SharedConfig \<Rightarrow> 'f \<Rightarrow> uint \<Rightarrow> stop + (bool \<times> uint)" where
  "skipDraw pf cfg fps_v counter =
    (if \<not> fastforward cfg then Inr (False, counter)
     else if \<not> running cfg then Inr (False, counter)
     else if av_dumping cfg then Inr (False, counter)
     else if ff_rendering cfg then Inr (True, counter)
     else
       case (if gt_one pf fps_v
             then shift_one (drop_bit 23 (bits pf (decrement pf fps_v)) - 126 - 3)
             else Inr 1) of
         Inl e \<Rightarrow> Inl e
       | Inr freq \<Rightarrow>
           let skip_freq = (if freq < 4 then 4 else freq);
               c = counter + 1
           in if c \<ge> skip_freq then Inr (False, 0) else Inr (True, c))"

subsection \<open>receive_messages\<close>

text \<open>
  The block that renders the HUD: it stands twice in \<open>frameBoundary\<close> and, with the
  preview inputs added, once in \<open>screen_redraw\<close>.
\<close>

definition hud_render :: "AllInputs option \<Rightarrow> 'f frame_state \<Rightarrow> 'f frame_state" where
  "hud_render preview s =
    (let cfg = shared_config s;
         s1 = effect HudResetOffsets s;
         s2 = (if osd_framecount cfg then effect (HudRenderFrame (framecount s)) s1 else s1);
         s3 = (if osd_inputs cfg then
                 (case preview of
                    None \<Rightarrow> effect (HudRenderInputs (ai s)) s2
                  | Some preview_ai \<Rightarrow>
                      effect (HudRenderPreviewInputs preview_ai) (effect (HudRenderInputs (ai s)) s2))
               else s2);
         s4 = (if osd_messages cfg then effect HudRenderMessages s3 else s3)
     in if osd_ramwatches cfg then effect HudRenderWatches s4 else s4)"

definition screen_redraw :: "AllInputs \<Rightarrow> 'f frame_state \<Rightarrow> 'f frame_state" where
  "screen_redraw preview_ai s =
    (if \<not> skipping_draw s \<and> save_screenpixels (shared_config s)
     then effect Draw (hud_render (Some preview_ai) (effect SetPixels s))
     else s)"

text \<open>
  \<open>pushQuitEvent\<close>: a quit event in the SDL queue, or a \<open>WM_DELETE_WINDOW\<close> client
  message sent to the game window on every open display.
\<close>

definition pushQuitEvent :: "'f frame_state \<Rightarrow> 'f frame_state" where
  "pushQuitEvent s =
    (if video_sdl1 (game_info s) then effect InsertSDL1Quit s
     else if video_sdl2 (game_info s) then effect InsertSDL2Quit s
     else effect SendWmDeleteWindow s)"

definition send_framecount_time :: "'f frame_state \<Rightarrow> 'f frame_state" where
  "send_framecount_time s = send (MSGB_FRAMECOUNT_TIME (framecount s) (ticks s)) s"

text \<open>
  The loop reads the messages of the controller in order; the result holds the messages
  that are left. \<open>preview_ai\<close> is the local of that name.
\<close>

fun receive_messages ::
  "AllInputs \<Rightarrow> in_msg list \<Rightarrow> 'f frame_state \<Rightarrow> stop + ('f frame_state \<times> in_msg list)" where
  "receive_messages preview_ai [] s = Inl WaitingForMessage"
| "receive_messages preview_ai (MSGN_USERQUIT # rest) s =
     receive_messages preview_ai rest ((pushQuitEvent s)\<lparr>is_exiting := True\<rparr>)"
| "receive_messages preview_ai (MSGN_CONFIG cfg # rest) s =
     receive_messages preview_ai rest (s\<lparr>shared_config := cfg\<rparr>)"
| "receive_messages preview_ai (MSGN_DUMP_FILE file opts # rest) s =
     receive_messages preview_ai rest
       ((effect (Log ''File '') ((effect (Log ''Receiving dump filename'') s)\<lparr>dumpfile := file\<rparr>))
          \<lparr>ffmpeg_options := opts\<rparr>)"
| "receive_messages preview_ai (MSGN_ALL_INPUTS a # rest) s =
     receive_messages preview_ai rest (s\<lparr>ai := a\<rparr>)"
| "receive_messages preview_ai (MSGN_EXPOSE # rest) s =
     receive_messages preview_ai rest (screen_redraw preview_ai s)"
| "receive_messages preview_ai (MSGN_PREVIEW_INPUTS p # rest) s =
     receive_messages p rest (screen_redraw p s)"
| "receive_messages preview_ai (MSGN_SAVESTATE_PATH path # rest) s =
     receive_messages preview_ai rest (effect (SetSavestatePath path) s)"
| "receive_messages preview_ai (MSGN_SAVESTATE_INDEX i # rest) s =
     receive_messages preview_ai rest (effect (SetSavestateIndex i) s)"
| "receive_messages preview_ai (MSGN_SAVESTATE False # rest) s =
     receive_messages preview_ai rest
       ((effect SetCurrentToParent (effect Checkpoint s))\<lparr>didASavestate := True\<rparr>)"
| "receive_messages preview_ai [MSGN_SAVESTATE True] s = Inl WaitingForMessage"
| "receive_messages preview_ai (MSGN_SAVESTATE True # MSGN_CONFIG cfg # rest) s =
     receive_messages preview_ai rest
       (effect SetPixels
          (send_framecount_time
             ((send MSGB_LOADING_SUCCEEDED
                 ((effect SetCurrentToParent (effect Checkpoint s))\<lparr>didASavestate := True\<rparr>))
                \<lparr>shared_config := cfg\<rparr>)))"
| "receive_messages preview_ai (MSGN_SAVESTATE True # m # rest) s = Inl AssertFailed"
| "receive_messages preview_ai (MSGN_LOADSTATE returns # rest) s =
     (if returns then receive_messages preview_ai rest (send_framecount_time (effect Restore s))
      else Inl StateRestored)"
| "receive_messages preview_ai (MSGN_STOP_ENCODE # rest) s =
     receive_messages preview_ai rest
       (if avencoder s then
          effect WindowTitleUpdateNoFps
            ((effect DeleteAVEncoder (effect (Log ''Stop AV dumping'') s))
               \<lparr>avencoder := False, shared_config := (shared_config s)\<lparr>av_dumping := False\<rparr>\<rparr>)
        else s)"
| "receive_messages preview_ai (MSGN_OSD_MSG m # rest) s =
     receive_messages preview_ai rest (screen_redraw preview_ai (effect (HudInsertMessage m) s))"
| "receive_messages preview_ai (MSGN_END_FRAMEBOUNDARY # rest) s = Inr (s, rest)"
| "receive_messages preview_ai (m # rest) s =
     Inr (effect (Log ''Unknown message received'') s, rest)"

subsection \<open>frameBoundary\<close>

text \<open>\<open>while (getAlertMsg(alert))\<close>: every pending alert is sent.\<close>

fun send_alerts :: "string list \<Rightarrow> 'f frame_state \<Rightarrow> 'f frame_state" where
  "send_alerts [] s = s\<lparr>alerts := []\<rparr>"
| "send_alerts (alert # pending) s = send_alerts pending (send (MSGB_ALERT_MSG alert) s)"

text \<open>The start of the frame boundary: frame count, fps values and timer.\<close>

definition update_time :: "'f platform \<Rightarrow> bool \<Rightarrow> 'f frame_state \<Rightarrow> 'f frame_state" where
  "update_time pf drawFB s =
    (let s1 = effect SetMainThread s;
         s2 = s1\<lparr>framecount := framecount s1 + 1\<rparr>;
         s3 = (if drawFB then computeFPS pf s2 else s2)
     in s3\<lparr>ticks := enter_ticks pf (ticks s3)\<rparr>)"

definition send_gameinfo :: "'f frame_state \<Rightarrow> 'f frame_state" where
  "send_gameinfo s =
    (if tosend (game_info s)
     then (send (MSGB_GAMEINFO (game_info s)) s)\<lparr>game_info := (game_info s)\<lparr>tosend := False\<rparr>\<rparr>
     else s)"

definition send_fps :: "'f frame_state \<Rightarrow> 'f frame_state" where
  "send_fps s = send (MSGB_FPS (fps s) (lfps s)) s"

text \<open>The request to perform a backtrack savestate.\<close>

definition ask_backtrack_savestate :: "'f frame_state \<Rightarrow> 'f frame_state" where
  "ask_backtrack_savestate s =
    (if saveBacktrack s then
       (if backtrack_savestate (shared_config s) \<and> didASavestate s
        then send MSGB_DO_BACKTRACK_SAVESTATE s else s)\<lparr>saveBacktrack := False\<rparr>
     else s)"

text \<open>
  Everything \<open>frameBoundary\<close> does before it sends \<open>MSGB_START_FRAMEBOUNDARY\<close>.
\<close>

definition frame_start :: "'f platform \<Rightarrow> bool \<Rightarrow> 'f frame_state \<Rightarrow> 'f frame_state" where
  "frame_start pf drawFB s =
    (let s1 = update_time pf drawFB s;
         s2 = send_alerts (alerts s1) s1;
         s3 = send_framecount_time s2;
         s4 = send_gameinfo s3;
         s5 = send_fps s4
     in ask_backtrack_savestate s5)"

text \<open>
  The ram watches: messages are read until one is not \<open>MSGN_RAMWATCH\<close>; that one is
  dropped.
\<close>

fun receive_ramwatches ::
  "in_msg list \<Rightarrow> 'f frame_state \<Rightarrow> stop + ('f frame_state \<times> in_msg list)" where
  "receive_ramwatches [] s = Inl WaitingForMessage"
| "receive_ramwatches (MSGN_RAMWATCH w # rest) s =
     receive_ramwatches rest (effect (InsertWatch w) s)"
| "receive_ramwatches (m # rest) s = Inr (s, rest)"

text \<open>Rendering, block by block, from the non-draw counter to the draw command.\<close>

definition count_nondraw :: "bool \<Rightarrow> 'f frame_state \<Rightarrow> 'f frame_state" where
  "count_nondraw drawFB s =
    (if \<not> drawFB then s\<lparr>nondraw_framecount := nondraw_framecount s + 1\<rparr> else s)"

definition update_title :: "'f frame_state \<Rightarrow> 'f frame_state" where
  "update_title s = (if \<not> skipping_draw s then effect WindowTitleUpdate s else s)"

definition store_pixels :: "bool \<Rightarrow> 'f frame_state \<Rightarrow> 'f frame_state" where
  "store_pixels drawFB s =
    (if \<not> skipping_draw s \<and> drawFB \<and> save_screenpixels (shared_config s)
     then effect StorePixels s else s)"

text \<open>The HUD is rendered before the encoding when \<open>osd_encode\<close> is set, after it otherwise.\<close>

definition hud_when :: "bool \<Rightarrow> 'f frame_state \<Rightarrow> 'f frame_state" where
  "hud_when encode s =
    (if \<not> skipping_draw s \<and> osd_encode (shared_config s) = encode then hud_render None s else s)"

definition encode_frame :: "bool \<Rightarrow> 'f frame_state \<Rightarrow> 'f frame_state" where
  "encode_frame drawFB s =
    (if av_dumping (shared_config s) then
       effect (EncodeOneFrame drawFB)
         (if \<not> avencoder s
          then (effect NewAVEncoder (effect (Log ''Start AV dumping on file '') s))
                 \<lparr>avencoder := True\<rparr>
          else s)
     else if avencoder s then
       (effect DeleteAVEncoder (effect (Log ''Stop AV dumping'') s))\<lparr>avencoder := False\<rparr>
     else s)"

definition draw_frame :: "'f frame_state \<Rightarrow> 'f frame_state" where
  "draw_frame s = (if \<not> skipping_draw s then effect Draw s else s)"

definition frame_render :: "bool \<Rightarrow> 'f frame_state \<Rightarrow> 'f frame_state" where
  "frame_render drawFB s =
    (let s1 = count_nondraw drawFB s;
         s2 = update_title s1;
         s3 = store_pixels drawFB s2;
         s4 = hud_when True s3;
         s5 = encode_frame drawFB s4;
         s6 = hud_when False s5
     in draw_frame s6)"

text \<open>After the messages: the screen is restored and the events are pushed.\<close>

definition restore_pixels :: "bool \<Rightarrow> bool \<Rightarrow> 'f frame_state \<Rightarrow> 'f frame_state" where
  "restore_pixels drawFB restore_screen s =
    (if restore_screen \<and> \<not> skipping_draw s \<and> drawFB \<and> save_screenpixels (shared_config s)
     then effect SetPixels s else s)"

definition push_native_events :: "'f frame_state \<Rightarrow> 'f frame_state" where
  "push_native_events s =
    (let s1 = (if video_sdl1 (game_info s) \<or> video_sdl2 (game_info s)
               then effect PushNativeSDLEvents s else s)
     in if \<not> debug_native_events (shared_config s)
        then effect PushNativeXlibEvents s1 else s1)"

definition generate_events :: "'f frame_state \<Rightarrow> 'f frame_state" where
  "generate_events s =
    (if \<not> debug_native_events (shared_config s) then
       let s1 = effect GenerateKeyDownEvents (effect GenerateKeyUpEvents s);
           s2 = (if framecount s = initial_framecount (shared_config s) + 1
                 then effect GenerateControllerAdded s1 else s1)
       in effect GenerateMouseButtonEvents
            (effect GenerateMouseMotionEvents (effect GenerateControllerEvents s2))
     else s)"

definition frame_events :: "bool \<Rightarrow> bool \<Rightarrow> 'f frame_state \<Rightarrow> 'f frame_state" where
  "frame_events drawFB restore_screen s =
    (let s1 = restore_pixels drawFB restore_screen s;
         s2 = push_native_events s1;
         s3 = effect UpdateGameInputs s2;
         s4 = generate_events s3
     in effect SyncEvents s4)"

text \<open>
  The whole function. \<open>inbox\<close> holds the messages that the controller sends from now
  on; the result holds the state when the function returns and the messages that are
  left. The local \<open>preview_ai\<close> of \<open>receive_messages\<close> starts as the empty inputs, 0.
\<close>

definition frameBoundary ::
  "'f platform \<Rightarrow> bool \<Rightarrow> bool \<Rightarrow> in_msg list \<Rightarrow> 'f frame_state
     \<Rightarrow> stop + ('f frame_state \<times> in_msg list)" where
  "frameBoundary pf drawFB restore_screen inbox s =
    (let s1 = effect ResetWatches (send MSGB_START_FRAMEBOUNDARY (frame_start pf drawFB s)) in
     case receive_ramwatches inbox s1 of
       Inl e \<Rightarrow> Inl e
     | Inr (s2, inbox2) \<Rightarrow>
         (case receive_messages 0 inbox2 (frame_render drawFB s2) of
            Inl e \<Rightarrow> Inl e
          | Inr (s3, inbox3) \<Rightarrow>
              let s4 = frame_events drawFB restore_screen s3 in
              (case skipDraw pf (shared_config s4) (fps s4) (skip_counter s4) of
                 Inl e \<Rightarrow> Inl e
               | Inr (skip, counter) \<Rightarrow>
                   Inr (s4\<lparr>skipping_draw := skip, skip_counter := counter,
                           ticks := exit_ticks pf (ticks s4)\<rparr>, inbox3))))"

text \<open>Successive frame boundaries, each with its draw flag and its \<open>restore_screen\<close>.\<close>

fun frames ::
  "'f platform \<Rightarrow> (bool \<times> bool) list \<Rightarrow> in_msg list \<Rightarrow> 'f frame_state
     \<Rightarrow> stop + ('f frame_state \<times> in_msg list)" where
  "frames pf [] inbox s = Inr (s, inbox)"
| "frames pf (c # cs) inbox s =
     (case frameBoundary pf (fst c) (snd c) inbox s of
        Inl e \<Rightarrow> Inl e
      | Inr (s', inbox') \<Rightarrow> frames pf cs inbox' s')"

subsection \<open>A float unit and a frame state for the examples\<close>

text \<open>
  The floats of the examples are the integral values from 0 to 16777215, which
  \<open>float\<close> holds exactly: a natural number stands for the float of that value. Its 32
  bits are those of IEEE 754 single precision: biased exponent \<open>127 + e\<close> and fraction
  \<open>(n - 2^e) * 2^(23 - e)\<close> for \<open>2^e \<le> n < 2^(e + 1)\<close>; for instance the bits of 2.0
  are \<open>0x40000000\<close>. Quotients are rounded down to an integral value. One second passes
  per frame on the monotonic clock and in the deterministic timer.
\<close>

fun log2 :: "nat \<Rightarrow> nat" where
  "log2 n = (if n < 2 then 0 else Suc (log2 (n div 2)))"

declare log2.simps [simp del]

definition float_bits :: "nat \<Rightarrow> uint" where
  "float_bits n =
     (if n = 0 then 0
      else push_bit 23 (of_nat (127 + log2 n)) + of_nat ((n - 2 ^ log2 n) * 2 ^ (23 - log2 n)))"

definition nanoseconds :: "timespec \<Rightarrow> int" where
  "nanoseconds t = tv_sec t * 1000000000 + tv_nsec t"

definition integral_floats :: "nat platform" where
  "integral_floats =
     \<lparr>gt_one = (\<lambda>x. 1 < x),
      decrement = (\<lambda>x. x - 1),
      bits = float_bits,
      to_int = int,
      rate = (\<lambda>deltaFrames new last.
                if nanoseconds new \<le> nanoseconds last then 0
                else nat ((uint deltaFrames * 1000000000) div (nanoseconds new - nanoseconds last))),
      clock_monotonic = (\<lambda>n. \<lparr>tv_sec = uint n, tv_nsec = 0\<rparr>),
      enter_ticks = (\<lambda>t. t\<lparr>tv_sec := tv_sec t + 1\<rparr>),
      exit_ticks = (\<lambda>t. t)\<rparr>"

definition plain_config :: SharedConfig where
  "plain_config =
     \<lparr>fastforward = False, running = True, av_dumping = False, ff_rendering = False,
      backtrack_savestate = False, save_screenpixels = True, osd_encode = False,
      osd_framecount = True, osd_inputs = False, osd_messages = False, osd_ramwatches = False,
      debug_native_events = False, initial_framecount = 0\<rparr>"

text \<open>Fast-forward that skips some of the draws, and fast-forward that skips them all.\<close>

definition fast_config :: SharedConfig where
  "fast_config = plain_config\<lparr>fastforward := True\<rparr>"

definition skip_all_config :: SharedConfig where
  "skip_all_config = plain_config\<lparr>fastforward := True, ff_rendering := True\<rparr>"

text \<open>The state of a game that starts: one alert is pending, the game info is to be sent.\<close>

definition start_state :: "nat frame_state" where
  "start_state =
     \<lparr>framecount = 0, nondraw_framecount = 0, didASavestate = False, saveBacktrack = False,
      skipping_draw = False, skip_counter = 0, fps = 0, lfps = 0, can_output = False,
      fps_refresh_freq = 15, refresh_counter = 0, compute_counter = 0,
      lastFrames = (\<lambda>_. 0), lastTimes = (\<lambda>_. \<lparr>tv_sec = 0, tv_nsec = 0\<rparr>),
      lastTicks = (\<lambda>_. \<lparr>tv_sec = 0, tv_nsec = 0\<rparr>),
      shared_config = plain_config,
      game_info = \<lparr>tosend = True, video_sdl1 = False, video_sdl2 = True\<rparr>,
      is_exiting = False, avencoder = False, dumpfile = [], ffmpeg_options = [], ai = 0,
      alerts = [''alert''], ticks = \<lparr>tv_sec = 0, tv_nsec = 0\<rparr>, sent = [], effects = []\<rparr>"

text \<open>
  The messages of the controller for three frames: the first sets fast-forward without
  rendering, the second sends inputs, the third ends with a tag that is not known.
\<close>

definition three_frames :: "in_msg list" where
  "three_frames =
     [MSGN_RAMWATCH ''watch'', MSGN_OTHER 0, MSGN_CONFIG skip_all_config, MSGN_END_FRAMEBOUNDARY,
      MSGN_OTHER 0, MSGN_ALL_INPUTS 5, MSGN_END_FRAMEBOUNDARY,
      MSGN_OTHER 0, MSGN_OTHER 99]"

text \<open>A state in which a backtrack savestate is requested after a first savestate.\<close>

definition backtrack_state :: "nat frame_state" where
  "backtrack_state = start_state\<lparr>saveBacktrack := True, didASavestate := True\<rparr>"

text \<open>The same request when the configuration has backtrack savestates on.\<close>

definition backtrack_on_state :: "nat frame_state" where
  "backtrack_on_state =
     backtrack_state\<lparr>shared_config := plain_config\<lparr>backtrack_savestate := True\<rparr>\<rparr>"

subsection \<open>Replies\<close>

text \<open>
  The messages sent after those of \<open>before\<close> hold neither the backtrack notice nor
  the start marker.
\<close>

definition replies_only :: "'f out_msg list \<Rightarrow> 'f frame_state \<Rightarrow> bool" where
  "replies_only before s' \<longleftrightarrow>
     (\<exists>later. sent s' = before @ later
        \<and> MSGB_DO_BACKTRACK_SAVESTATE \<notin> set later
        \<and> MSGB_START_FRAMEBOUNDARY \<notin> set later)"

section \<open>Properties of the thread interception layer\<close>

lemma reg_call [simp]: "reg (call c w) = reg w"
  by (simp add: call_def)

lemma reg_debuglog [simp]: "reg (debuglog s w) = reg w"
  by (simp add: debuglog_def)

lemma calls_call [simp]: "calls (call c w) = calls w @ [c]"
  by (simp add: call_def)

lemma calls_debuglog [simp]: "calls (debuglog s w) = calls w @ [Debuglog s]"
  by (simp add: debuglog_def)

lemma others_call [simp]: "others (call c w) = others w"
  by (simp add: call_def)

lemma others_debuglog [simp]: "others (debuglog s w) = others w"
  by (simp add: debuglog_def)

lemma reg_nanosleep_call [simp]: "reg (nanosleep ts (call c w)) = reg (nanosleep ts w)"
  by (simp add: nanosleep_def split: list.splits)

lemma reg_nanosleep_debuglog [simp]: "reg (nanosleep ts (debuglog s w)) = reg (nanosleep ts w)"
  by (simp add: debuglog_def)

lemma thread_list_routine_returns [simp]:
  "thread_list (routine_returns e r) = thread_list r"
  by (simp add: routine_returns_def threadExit_def)

lemma detached_routine_returns [simp]:
  "detached (heap (routine_returns e r) th) = detached (heap r th)"
  by (simp add: routine_returns_def threadExit_def)

lemma thread_list_fold_returns [simp]:
  "thread_list (fold routine_returns es r) = thread_list r"
  by (induction es arbitrary: r) simp_all

lemma detached_fold_returns [simp]:
  "detached (heap (fold routine_returns es r) th) = detached (heap r th)"
  by (induction es arbitrary: r) simp_all

lemma thread_list_nanosleep [simp]:
  "thread_list (reg (nanosleep ts w)) = thread_list (reg w)"
  by (simp add: nanosleep_def split: list.splits)

lemma detached_nanosleep [simp]:
  "detached (heap (reg (nanosleep ts w)) th) = detached (heap (reg w) th)"
  by (simp add: nanosleep_def split: list.splits)

lemma getThread_nanosleep [simp]:
  "getThread (reg (nanosleep ts w)) pth = getThread (reg w) pth"
  by (simp add: getThread_def)

text \<open>
  C10. In non-native mode, a timed join whose timeout has a negative seconds field or a
  nanoseconds field of at least 1000000000 returns \<open>EINVAL\<close>, whatever the registry
  holds for the identity (the lookup comes after the test), stores nothing and leaves
  the registry as it was; the only calls made are the lock, the wait for thread
  initialisation, the log line and the unlock.
\<close>

theorem timedjoin_invalid_timeout:
  assumes "\<not> isNative cfg"
      and "tv_sec abstime < 0 \<or> tv_nsec abstime \<ge> 1000000000"
  shows "pthread_timedjoin_np tm cfg orig pth retval_p abstime w =
           (EINVAL, None,
            w\<lparr>calls := calls w @ [WrapperExecutionLockLock, WaitForThreadsToFinishInitialization,
                 Debuglog ''Try to join thread in '', WrapperExecutionLockUnlock]\<rparr>)"
  using assms by (simp add: pthread_timedjoin_np_def call_def debuglog_def)

theorem timedjoin_invalid_timeout_witness:
  "\<not> isNative recycling \<and> tv_nsec \<lparr>tv_sec = 1, tv_nsec = 1000000000\<rparr> \<ge> 1000000000
   \<and> getThread (reg world7) 7 = Some 0
   \<and> fst (pthread_timedjoin_np plain_tm recycling (0, None) 7 True
             \<lparr>tv_sec = 1, tv_nsec = 1000000000\<rparr> world7) = EINVAL
   \<and> reg (snd (snd (pthread_timedjoin_np plain_tm recycling (0, None) 7 True
             \<lparr>tv_sec = 1, tv_nsec = 1000000000\<rparr> world7))) = reg world7"
  using timedjoin_invalid_timeout [of recycling "\<lparr>tv_sec = 1, tv_nsec = 1000000000\<rparr>"
          plain_tm "(0, None)" 7 True world7]
  by (simp add: recycling_def getThread_def world7_def)


text \<open>
  C6. In non-native mode a join or a detach of an identity the registry does not know
  returns \<open>ESRCH\<close>, and a join or a detach of a logical thread that is already
  detached returns \<open>EINVAL\<close>. In both cases the state afterwards is the state
  before with four calls added (lock, wait for thread initialisation, log line,
  unlock): the registry is not touched, \<open>threadDetach\<close> is not called.
\<close>

theorem join_detach_failures:
  assumes "\<not> isNative cfg"
  shows "(getThread (reg w) pth = None \<longrightarrow>
            pthread_join tm cfg oj pth w =
              Some (ESRCH, None,
                    w\<lparr>calls := calls w @ [WrapperExecutionLockLock,
                         WaitForThreadsToFinishInitialization, Debuglog ''Joining thread '',
                         WrapperExecutionLockUnlock]\<rparr>)
            \<and> pthread_detach tm cfg od pth w =
              (ESRCH,
               w\<lparr>calls := calls w @ [WrapperExecutionLockLock,
                    WaitForThreadsToFinishInitialization, Debuglog ''Detaching thread '',
                    WrapperExecutionLockUnlock]\<rparr>))
       \<and> (\<forall>thread. getThread (reg w) pth = Some thread \<and> detached (heap (reg w) thread) \<longrightarrow>
            pthread_join tm cfg oj pth w =
              Some (EINVAL, None,
                    w\<lparr>calls := calls w @ [WrapperExecutionLockLock,
                         WaitForThreadsToFinishInitialization, Debuglog ''Joining thread '',
                         WrapperExecutionLockUnlock]\<rparr>)
            \<and> pthread_detach tm cfg od pth w =
              (EINVAL,
               w\<lparr>calls := calls w @ [WrapperExecutionLockLock,
                    WaitForThreadsToFinishInitialization, Debuglog ''Detaching thread '',
                    WrapperExecutionLockUnlock]\<rparr>))"
  using assms
  by (simp add: pthread_join_def pthread_detach_def call_def debuglog_def)

theorem join_detach_failures_witness:
  "\<not> isNative recycling \<and> getThread (reg world7) 8 = None
   \<and> map_option (\<lambda>res. (fst res, reg (snd (snd res))))
        (pthread_join plain_tm recycling (0, None) 8 world7) = Some (ESRCH, reg world7)
   \<and> map_prod id reg (pthread_detach plain_tm recycling 0 8 world7) = (ESRCH, reg world7)
   \<and> getThread (reg world7_detached) 7 = Some 0
   \<and> detached (heap (reg world7_detached) 0)
   \<and> map_option (\<lambda>res. (fst res, reg (snd (snd res))))
        (pthread_join plain_tm recycling (0, None) 7 world7_detached)
        = Some (EINVAL, reg world7_detached)
   \<and> map_prod id reg (pthread_detach plain_tm recycling 0 7 world7_detached)
        = (EINVAL, reg world7_detached)"
  using join_detach_failures [of recycling world7 8 plain_tm "(0, None)" 0]
        join_detach_failures [of recycling world7_detached 7 plain_tm "(0, None)" 0]
  by (simp add: recycling_def getThread_def world7_def world7_detached_def
        plain_threadDetach_def)

text \<open>
  C2. With recycling, a timed join of a known, joinable logical thread that is not a
  zombie when the wait is over returns \<open>ETIMEDOUT\<close> and stores nothing. The
  registry afterwards is the one the other threads left at the end of the wait: the
  call itself changes nothing in it. The identity is still in the thread list, the
  thread is still not detached, and a join of the same identity made in that state
  does not fail: if it returns, it returns 0.
\<close>

theorem timedjoin_timeout_keeps_joinable:
  assumes "\<not> isNative cfg" and "recycle_threads cfg"
      and "0 \<le> tv_sec abstime" and "tv_nsec abstime < 1000000000"
      and "getThread (reg w) pth = Some thread"
      and "\<not> detached (heap (reg w) thread)"
      and "state (heap (reg (nanosleep abstime w)) thread) \<noteq> ST_ZOMBIE"
  shows "\<exists>w'. pthread_timedjoin_np tm cfg orig pth retval_p abstime w = (ETIMEDOUT, None, w')
           \<and> reg w' = reg (nanosleep abstime w)
           \<and> thread_list (reg w') = thread_list (reg w)
           \<and> getThread (reg w') pth = Some thread
           \<and> \<not> detached (heap (reg w') thread)
           \<and> (\<forall>res. pthread_join tm cfg orig' pth w' = Some res \<longrightarrow> fst res = 0)"
  using assms
  by (auto simp add: pthread_timedjoin_np_def Let_def pthread_join_def ETIMEDOUT_def
        split: option.splits)


theorem timedjoin_timeout_keeps_joinable_witness:
  "\<not> isNative recycling \<and> recycle_threads recycling
   \<and> getThread (reg world7) 7 = Some 0
   \<and> \<not> detached (heap (reg world7) 0)
   \<and> state (heap (reg (nanosleep \<lparr>tv_sec = 0, tv_nsec = 5000000\<rparr> world7)) 0) \<noteq> ST_ZOMBIE
   \<and> fst (pthread_timedjoin_np plain_tm recycling (0, None) 7 True
             \<lparr>tv_sec = 0, tv_nsec = 5000000\<rparr> world7) = ETIMEDOUT
   \<and> getThread (reg (snd (snd (pthread_timedjoin_np plain_tm recycling (0, None) 7 True
             \<lparr>tv_sec = 0, tv_nsec = 5000000\<rparr> world7)))) 7 = Some 0
   \<and> map_option fst
        (pthread_join plain_tm recycling (0, None) 7
           (snd (snd (pthread_timedjoin_np plain_tm recycling (0, None) 7 True
              \<lparr>tv_sec = 0, tv_nsec = 5000000\<rparr> world7)))) = Some 0"
  using timedjoin_timeout_keeps_joinable [of recycling "\<lparr>tv_sec = 0, tv_nsec = 5000000\<rparr>"
          world7 7 0 plain_tm "(0, None)" True "(0, None)"]
  by (simp add: recycling_def getThread_def world7_def thread7_def nanosleep_def call_def
        debuglog_def pthread_timedjoin_np_def pthread_join_def wait_zombie.simps
        routine_returns_def threadExit_def)

text \<open>
  C1. With recycling, on a known, joinable logical thread that is a zombie, the try-join
  and the timed join store the value of the routine, detach the thread and log
  ``Joining thread successfully.'', but the value they return is not 0: the local
  \<open>ret\<close> is dropped and the final \<open>return\<close> gives the constant \<open>EBUSY\<close>,
  respectively \<open>ETIMEDOUT\<close>.
\<close>

theorem tryjoin_timedjoin_zombie_result:
  assumes "\<not> isNative cfg" and "recycle_threads cfg"
      and "getThread (reg w) pth = Some thread"
      and "\<not> detached (heap (reg w) thread)"
  shows "(state (heap (reg w) thread) = ST_ZOMBIE \<longrightarrow>
            fst (pthread_tryjoin_np tm cfg orig pth retval_p w) = EBUSY
          \<and> fst (snd (pthread_tryjoin_np tm cfg orig pth retval_p w)) =
              (if retval_p then Some (retval (heap (reg w) thread)) else None)
          \<and> reg (snd (snd (pthread_tryjoin_np tm cfg orig pth retval_p w))) =
              threadDetach tm pth (reg w)
          \<and> Debuglog ''Joining thread successfully.'' \<in>
              set (calls (snd (snd (pthread_tryjoin_np tm cfg orig pth retval_p w)))))
       \<and> (0 \<le> tv_sec abstime \<and> tv_nsec abstime < 1000000000
          \<and> state (heap (reg (nanosleep abstime w)) thread) = ST_ZOMBIE \<longrightarrow>
            fst (pthread_timedjoin_np tm cfg orig pth retval_p abstime w) = ETIMEDOUT
          \<and> fst (snd (pthread_timedjoin_np tm cfg orig pth retval_p abstime w)) =
              (if retval_p then Some (retval (heap (reg (nanosleep abstime w)) thread)) else None)
          \<and> reg (snd (snd (pthread_timedjoin_np tm cfg orig pth retval_p abstime w))) =
              threadDetach tm pth (reg (nanosleep abstime w))
          \<and> Debuglog ''Joining thread successfully.'' \<in>
              set (calls (snd (snd (pthread_timedjoin_np tm cfg orig pth retval_p abstime w)))))"
  using assms
  by (simp add: pthread_tryjoin_np_def pthread_timedjoin_np_def Let_def)

theorem tryjoin_timedjoin_zombie_result_witness:
  "\<not> isNative recycling \<and> recycle_threads recycling
   \<and> getThread (reg zombie7) 7 = Some 0
   \<and> \<not> detached (heap (reg zombie7) 0)
   \<and> state (heap (reg zombie7) 0) = ST_ZOMBIE
   \<and> fst (pthread_tryjoin_np plain_tm recycling (0, None) 7 True zombie7) = 16
   \<and> fst (snd (pthread_tryjoin_np plain_tm recycling (0, None) 7 True zombie7)) = Some 42
   \<and> detached (heap (reg (snd (snd
        (pthread_tryjoin_np plain_tm recycling (0, None) 7 True zombie7)))) 0)
   \<and> fst (pthread_timedjoin_np plain_tm recycling (0, None) 7 True
            \<lparr>tv_sec = 0, tv_nsec = 5000000\<rparr> zombie7) = 110
   \<and> fst (snd (pthread_timedjoin_np plain_tm recycling (0, None) 7 True
            \<lparr>tv_sec = 0, tv_nsec = 5000000\<rparr> zombie7)) = Some 42"
  using tryjoin_timedjoin_zombie_result [of recycling zombie7 7 0 plain_tm "(0, None)" True
          "\<lparr>tv_sec = 0, tv_nsec = 5000000\<rparr>"]
  by (simp add: recycling_def getThread_def world7_def thread7_def zombie7_def nanosleep_def
        call_def threadExit_def routine_returns_def plain_tm_def plain_threadDetach_def
        EBUSY_def ETIMEDOUT_def)

text \<open>
  C7. \<open>pthread_create\<close> takes a logical thread from \<open>getNewThread\<close> and hands it the
  routine and the argument through \<open>initThreadFromParent\<close>. When that reports a
  recycled thread, the real \<open>pthread_create\<close> is not called: the thread is notified on
  its condition variable and the call returns 0. Otherwise the real \<open>pthread_create\<close>
  is called with \<open>pthread_start\<close> and the logical thread; its return value is returned
  as it is, and when it is not 0 the count of uninitialised threads is decremented and
  the logical thread is given to \<open>threadIsDead\<close>. The call returns a value other
  than 0 in that last case only.
\<close>

theorem create_recycles_or_spawns:
  assumes "getNewThread tm (reg w) = (thread, r1)"
      and "initThreadFromParent tm thread start_routine a r1 = (isRecycled, r2)"
      and "r3 = r2\<lparr>heap := (heap r2)(thread := (heap r2 thread)\<lparr>detached :=
                (case attr of None \<Rightarrow> False | Some d \<Rightarrow> d = PTHREAD_CREATE_DETACHED)\<rparr>)\<rparr>"
      and "pre = calls w @ [Debuglog ''Thread is created with routine '',
                    WrapperExecutionLockLock, IncrementUninitializedThreadCount]
                  @ (case attr of None \<Rightarrow> []
                     | Some d \<Rightarrow> [Debuglog ''Detached state is '', Debuglog ''Default state is ''])"
  shows "(isRecycled \<longrightarrow>
            pthread_create tm orig attr start_routine a w =
              (0, Some (pthread_id (heap r3 thread)),
               w\<lparr>reg := r3,
                  calls := pre @ [Debuglog ''Recycling thread '', CvNotifyAll thread,
                             WrapperExecutionLockUnlock]\<rparr>))
       \<and> (\<not> isRecycled \<and> fst orig = 0 \<longrightarrow>
            pthread_create tm orig attr start_routine a w =
              (0, snd orig,
               w\<lparr>reg := r3,
                  calls := pre @ [OrigPthreadCreate thread, WrapperExecutionLockUnlock]\<rparr>))
       \<and> (\<not> isRecycled \<and> fst orig \<noteq> 0 \<longrightarrow>
            pthread_create tm orig attr start_routine a w =
              (fst orig, snd orig,
               w\<lparr>reg := threadIsDead tm thread r3,
                  calls := pre @ [OrigPthreadCreate thread, DecrementUninitializedThreadCount,
                             WrapperExecutionLockUnlock]\<rparr>))
       \<and> (fst (pthread_create tm orig attr start_routine a w) \<noteq> 0
            \<longleftrightarrow> \<not> isRecycled \<and> fst orig \<noteq> 0)"
  using assms
  by (cases attr)
     (simp_all add: pthread_create_def Let_def call_def debuglog_def
        PTHREAD_CREATE_JOINABLE_def PTHREAD_CREATE_DETACHED_def)


theorem create_recycles_or_spawns_witness:
  "fst (pthread_create plain_tm (0, Some 9) None 2 0 parked7) = 0
   \<and> fst (snd (pthread_create plain_tm (0, Some 9) None 2 0 parked7)) = Some 7
   \<and> calls (snd (snd (pthread_create plain_tm (0, Some 9) None 2 0 parked7))) =
       [Debuglog ''Thread is created with routine '', WrapperExecutionLockLock,
        IncrementUninitializedThreadCount, Debuglog ''Recycling thread '', CvNotifyAll 0,
        WrapperExecutionLockUnlock]
   \<and> start (heap (reg (snd (snd (pthread_create plain_tm (0, Some 9) None 2 0 parked7)))) 0) = 2
   \<and> fst (pthread_create plain_tm (0, Some 9) None 2 0 world7) = 0
   \<and> fst (snd (pthread_create plain_tm (0, Some 9) None 2 0 world7)) = Some 9
   \<and> calls (snd (snd (pthread_create plain_tm (0, Some 9) None 2 0 world7))) =
       [Debuglog ''Thread is created with routine '', WrapperExecutionLockLock,
        IncrementUninitializedThreadCount, OrigPthreadCreate 1, WrapperExecutionLockUnlock]
   \<and> fst (pthread_create plain_tm (11, None) None 2 0 world7) = 11
   \<and> calls (snd (snd (pthread_create plain_tm (11, None) None 2 0 world7))) =
       [Debuglog ''Thread is created with routine '', WrapperExecutionLockLock,
        IncrementUninitializedThreadCount, OrigPthreadCreate 1,
        DecrementUninitializedThreadCount, WrapperExecutionLockUnlock]
   \<and> getThread (reg (snd (snd (pthread_create plain_tm (11, None) None 2 0 world7)))) 7 = None"
proof -
  have new_parked: "getNewThread plain_tm (reg parked7) = (0, reg parked7)"
    by (simp add: plain_tm_def plain_getNewThread_def parked7_def)
  have init_parked: "initThreadFromParent plain_tm 0 2 0 (reg parked7) =
      (True, (reg parked7)\<lparr>heap := (heap (reg parked7))
         (0 := (heap (reg parked7) 0)\<lparr>state := ST_RUNNING, start := 2, arg := 0\<rparr>)\<rparr>)"
    by (simp add: plain_tm_def plain_initThreadFromParent_def parked7_def)
  have new_running: "getNewThread plain_tm (reg world7) = (1, reg world7)"
    by (simp add: plain_tm_def plain_getNewThread_def world7_def thread7_def)
  have init_running: "initThreadFromParent plain_tm 1 2 0 (reg world7) =
      (False, (reg world7)\<lparr>heap := (heap (reg world7))
         (1 := (heap (reg world7) 1)\<lparr>state := ST_RUNNING, start := 2, arg := 0\<rparr>)\<rparr>)"
    by (simp add: plain_tm_def plain_initThreadFromParent_def world7_def thread7_def)
  note recycled = create_recycles_or_spawns [where attr = None and orig = "(0, Some 9)",
      OF new_parked init_parked refl refl]
  note spawned = create_recycles_or_spawns [where attr = None and orig = "(0, Some 9)",
      OF new_running init_running refl refl]
  note failed = create_recycles_or_spawns [where attr = None and orig = "(11, None)",
      OF new_running init_running refl refl]
  show ?thesis
    using recycled spawned failed
    by (simp add: parked7_def world7_def thread7_def plain_tm_def plain_threadIsDead_def
          getThread_def)
qed

text \<open>
  C8. With recycling \<open>pthread_exit\<close> only throws \<open>ThreadExitException\<close>. A routine
  run by the trampoline that calls it leaves the OS thread alive: the trampoline catches
  the exception, runs the code after the routine (TLS values unset, destructors run,
  TLS reinitialised, \<open>threadExit\<close> called) and the logical thread is a zombie; the
  real \<open>pthread_exit\<close> is not called. The value recorded by \<open>threadExit\<close> is then
  the unassigned local \<open>ret\<close>. Without recycling \<open>pthread_exit\<close> records the exit
  with \<open>threadExit\<close> and calls the real \<open>pthread_exit\<close>, which ends the OS thread
  before the code after the routine.
\<close>

theorem exit_inside_routine:
  assumes "r1 = update tm thread (reg w)"
      and "prog (start (heap r1 thread)) (arg (heap r1 thread)) = CallsPthreadExit v"
      and "pre = calls w @ [DecrementUninitializedThreadCount,
                    Debuglog ''Beginning of thread code '', Debuglog ''Thread has exited.'']"
  shows "pthread_exit cfg thread v w =
           (if recycle_threads cfg then (ThreadExitException, debuglog ''Thread has exited.'' w)
            else (OsThreadEnded,
                  w\<lparr>reg := threadExit thread v (reg w),
                     calls := calls w @ [Debuglog ''Thread has exited.'', OrigPthreadExit v]\<rparr>))
       \<and> (recycle_threads cfg \<longrightarrow>
            run_routine tm cfg prog uninit thread w =
              (None,
               w\<lparr>reg := threadExit thread uninit (setCurrentThread tm thread r1),
                  calls := pre @ [Debuglog ''End of thread code'', ClearPthreadKeys,
                             CallTlsDtors, LibcThreadFreeres,
                             DlAllocateTlsInit (pthread_id (heap r1 thread))]\<rparr>)
            \<and> state (heap (reg (snd (run_routine tm cfg prog uninit thread w))) thread)
                = ST_ZOMBIE)
       \<and> (\<not> recycle_threads cfg \<longrightarrow>
            run_routine tm cfg prog uninit thread w =
              (Some EndedByPthreadExit,
               w\<lparr>reg := threadExit thread v r1, calls := pre @ [OrigPthreadExit v]\<rparr>))"
  using assms
  by (simp add: run_routine_def pthread_exit_def after_routine_def Let_def call_def
        debuglog_def threadExit_def)

theorem exit_inside_routine_witness:
  "exiting_program (start (heap (reg world7) 0)) (arg (heap (reg world7) 0)) = CallsPthreadExit 5
   \<and> fst (run_routine plain_tm recycling exiting_program 99 0 world7) = None
   \<and> calls (snd (run_routine plain_tm recycling exiting_program 99 0 world7)) =
       [DecrementUninitializedThreadCount, Debuglog ''Beginning of thread code '',
        Debuglog ''Thread has exited.'', Debuglog ''End of thread code'', ClearPthreadKeys,
        CallTlsDtors, LibcThreadFreeres, DlAllocateTlsInit 7]
   \<and> state (heap (reg (snd (run_routine plain_tm recycling exiting_program 99 0 world7))) 0)
       = ST_ZOMBIE
   \<and> fst (pthread_start plain_tm recycling exiting_program 99 0 [] world7) = WaitingOnCv
   \<and> fst (run_routine plain_tm not_recycling exiting_program 99 0 world7)
       = Some EndedByPthreadExit
   \<and> calls (snd (run_routine plain_tm not_recycling exiting_program 99 0 world7)) =
       [DecrementUninitializedThreadCount, Debuglog ''Beginning of thread code '',
        Debuglog ''Thread has exited.'', OrigPthreadExit 5]
   \<and> retval (heap (reg (snd (run_routine plain_tm not_recycling exiting_program 99 0 world7))) 0)
       = 5"
proof -
  have upd: "reg world7 = update plain_tm 0 (reg world7)"
    by (simp add: plain_tm_def)
  have exits: "exiting_program (start (heap (reg world7) 0)) (arg (heap (reg world7) 0))
      = CallsPthreadExit 5"
    by (simp add: exiting_program_def world7_def thread7_def)
  note on = exit_inside_routine [where tm = plain_tm and w = world7 and thread = 0
      and prog = exiting_program and cfg = recycling and uninit = 99, OF upd exits refl]
  note off = exit_inside_routine [where tm = plain_tm and w = world7 and thread = 0
      and prog = exiting_program and cfg = not_recycling and uninit = 99, OF upd exits refl]
  have loop: "fst (pthread_start plain_tm recycling exiting_program 99 0 [] world7) = WaitingOnCv"
    using on
    by (simp add: pthread_start_def pthread_start_loop.simps recycling_def plain_tm_def
          world7_def thread7_def threadExit_def)
  show ?thesis
    using on off exits loop
    by (simp add: recycling_def not_recycling_def world7_def thread7_def threadExit_def
          plain_tm_def)
qed

section \<open>Properties of the frame boundary\<close>

subsection \<open>The frame counter is only changed by its increment\<close>

lemma framecount_effect [simp]: "framecount (effect e s) = framecount s"
  by (simp add: effect_def)

lemma framecount_send [simp]: "framecount (send m s) = framecount s"
  by (simp add: send_def)

lemma framecount_send_framecount_time [simp]:
  "framecount (send_framecount_time s) = framecount s"
  by (simp add: send_framecount_time_def)

lemma framecount_send_alerts [simp]: "framecount (send_alerts as s) = framecount s"
  by (induction as arbitrary: s) simp_all

lemma framecount_computeFPS [simp]: "framecount (computeFPS pf s) = framecount s"
  by (simp add: computeFPS_def Let_def)

lemma framecount_hud_render [simp]: "framecount (hud_render p s) = framecount s"
  by (simp add: hud_render_def Let_def split: option.splits)

lemma framecount_screen_redraw [simp]: "framecount (screen_redraw p s) = framecount s"
  by (simp add: screen_redraw_def)

lemma framecount_pushQuitEvent [simp]: "framecount (pushQuitEvent s) = framecount s"
  by (simp add: pushQuitEvent_def)

lemma framecount_update_time [simp]:
  "framecount (update_time pf drawFB s) = framecount s + 1"
  by (simp add: update_time_def Let_def)

lemma framecount_send_gameinfo [simp]: "framecount (send_gameinfo s) = framecount s"
  by (simp add: send_gameinfo_def)

lemma framecount_send_fps [simp]: "framecount (send_fps s) = framecount s"
  by (simp add: send_fps_def)

lemma framecount_ask_backtrack_savestate [simp]:
  "framecount (ask_backtrack_savestate s) = framecount s"
  by (simp add: ask_backtrack_savestate_def)

lemma framecount_frame_start [simp]:
  "framecount (frame_start pf drawFB s) = framecount s + 1"
  by (simp add: frame_start_def Let_def)

lemma framecount_count_nondraw [simp]: "framecount (count_nondraw drawFB s) = framecount s"
  by (simp add: count_nondraw_def)

lemma framecount_update_title [simp]: "framecount (update_title s) = framecount s"
  by (simp add: update_title_def)

lemma framecount_store_pixels [simp]: "framecount (store_pixels drawFB s) = framecount s"
  by (simp add: store_pixels_def)

lemma framecount_hud_when [simp]: "framecount (hud_when b s) = framecount s"
  by (simp add: hud_when_def)

lemma framecount_encode_frame [simp]: "framecount (encode_frame drawFB s) = framecount s"
  by (simp add: encode_frame_def)

lemma framecount_draw_frame [simp]: "framecount (draw_frame s) = framecount s"
  by (simp add: draw_frame_def)

lemma framecount_frame_render [simp]: "framecount (frame_render drawFB s) = framecount s"
  by (simp add: frame_render_def Let_def)

lemma framecount_restore_pixels [simp]:
  "framecount (restore_pixels drawFB restore_screen s) = framecount s"
  by (simp add: restore_pixels_def)

lemma framecount_push_native_events [simp]: "framecount (push_native_events s) = framecount s"
  by (simp add: push_native_events_def Let_def)

lemma framecount_generate_events [simp]: "framecount (generate_events s) = framecount s"
  by (simp add: generate_events_def Let_def)

lemma framecount_frame_events [simp]:
  "framecount (frame_events drawFB restore_screen s) = framecount s"
  by (simp add: frame_events_def Let_def)

lemma framecount_receive_ramwatches:
  "receive_ramwatches inbox s = Inr (s', inbox') \<Longrightarrow> framecount s' = framecount s"
  by (induction inbox s rule: receive_ramwatches.induct) auto

lemma framecount_receive_messages:
  "receive_messages p inbox s = Inr (s', inbox') \<Longrightarrow> framecount s' = framecount s"
  by (induction p inbox s rule: receive_messages.induct)
     (auto simp: Let_def split: if_splits list.splits in_msg.splits)

lemma framecount_frameBoundary:
  "frameBoundary pf drawFB restore_screen inbox s = Inr (s', inbox') \<Longrightarrow>
     framecount s' = framecount s + 1"
  by (auto simp: frameBoundary_def Let_def split: sum.splits prod.splits
        dest!: framecount_receive_ramwatches framecount_receive_messages)

lemma framecount_frames:
  "frames pf cs inbox s = Inr (s', inbox') \<Longrightarrow>
     framecount s' = framecount s + of_nat (length cs)"
proof (induction cs arbitrary: inbox s)
  case Nil
  then show ?case by simp
next
  case (Cons c cs)
  from Cons.prems obtain s1 inbox1 where
    first: "frameBoundary pf (fst c) (snd c) inbox s = Inr (s1, inbox1)" and
    rest: "frames pf cs inbox1 s1 = Inr (s', inbox')"
    by (auto split: sum.splits)
  from Cons.IH [OF rest] framecount_frameBoundary [OF first]
  show ?case by simp
qed

subsection \<open>What the start of the frame boundary sends\<close>

lemma update_time_keeps [simp]:
  "sent (update_time pf drawFB s) = sent s"
  "alerts (update_time pf drawFB s) = alerts s"
  "game_info (update_time pf drawFB s) = game_info s"
  "saveBacktrack (update_time pf drawFB s) = saveBacktrack s"
  "didASavestate (update_time pf drawFB s) = didASavestate s"
  "shared_config (update_time pf drawFB s) = shared_config s"
  by (simp_all add: update_time_def computeFPS_def effect_def Let_def)

lemma send_alerts_keeps [simp]:
  "game_info (send_alerts as s) = game_info s"
  "saveBacktrack (send_alerts as s) = saveBacktrack s"
  "didASavestate (send_alerts as s) = didASavestate s"
  "shared_config (send_alerts as s) = shared_config s"
  by (induction as arbitrary: s) (simp_all add: send_def)

lemma sent_send_alerts [simp]:
  "sent (send_alerts as s) = sent s @ map MSGB_ALERT_MSG as"
  by (induction as arbitrary: s) (simp_all add: send_def)

lemma send_framecount_time_keeps [simp]:
  "game_info (send_framecount_time s) = game_info s"
  "saveBacktrack (send_framecount_time s) = saveBacktrack s"
  "didASavestate (send_framecount_time s) = didASavestate s"
  "shared_config (send_framecount_time s) = shared_config s"
  by (simp_all add: send_framecount_time_def send_def)

lemma send_gameinfo_keeps [simp]:
  "saveBacktrack (send_gameinfo s) = saveBacktrack s"
  "didASavestate (send_gameinfo s) = didASavestate s"
  "shared_config (send_gameinfo s) = shared_config s"
  by (simp_all add: send_gameinfo_def send_def)

lemma send_fps_keeps [simp]:
  "saveBacktrack (send_fps s) = saveBacktrack s"
  "didASavestate (send_fps s) = didASavestate s"
  "shared_config (send_fps s) = shared_config s"
  by (simp_all add: send_fps_def send_def)

lemma sent_ask_backtrack_savestate:
  "sent (ask_backtrack_savestate s) =
     sent s @ (if saveBacktrack s \<and> backtrack_savestate (shared_config s) \<and> didASavestate s
               then [MSGB_DO_BACKTRACK_SAVESTATE] else [])"
  by (simp add: ask_backtrack_savestate_def send_def)

lemma saveBacktrack_ask_backtrack_savestate [simp]:
  "\<not> saveBacktrack (ask_backtrack_savestate s)"
  by (simp add: ask_backtrack_savestate_def)

lemma sent_frame_start:
  "\<exists>before. sent (frame_start pf drawFB s) =
     sent s @ before @
       (if saveBacktrack s \<and> backtrack_savestate (shared_config s) \<and> didASavestate s
        then [MSGB_DO_BACKTRACK_SAVESTATE] else [])
     \<and> MSGB_DO_BACKTRACK_SAVESTATE \<notin> set before
     \<and> MSGB_START_FRAMEBOUNDARY \<notin> set before"
  by (auto simp: frame_start_def Let_def sent_ask_backtrack_savestate send_fps_def
        send_gameinfo_def send_framecount_time_def send_def)

lemma saveBacktrack_frame_start [simp]: "\<not> saveBacktrack (frame_start pf drawFB s)"
  by (simp add: frame_start_def Let_def)


subsection \<open>What the rest of the frame boundary sends\<close>

lemma sent_effect [simp]: "sent (effect e s) = sent s"
  by (simp add: effect_def)

lemma sent_hud_render [simp]: "sent (hud_render p s) = sent s"
  by (simp add: hud_render_def Let_def split: option.splits)

lemma sent_screen_redraw [simp]: "sent (screen_redraw p s) = sent s"
  by (simp add: screen_redraw_def)

lemma sent_pushQuitEvent [simp]: "sent (pushQuitEvent s) = sent s"
  by (simp add: pushQuitEvent_def)

lemma sent_render_steps [simp]:
  "sent (count_nondraw drawFB s) = sent s"
  "sent (update_title s) = sent s"
  "sent (store_pixels drawFB s) = sent s"
  "sent (hud_when b s) = sent s"
  "sent (encode_frame drawFB s) = sent s"
  "sent (draw_frame s) = sent s"
  by (simp_all add: count_nondraw_def update_title_def store_pixels_def hud_when_def
        encode_frame_def draw_frame_def)

lemma sent_frame_render [simp]: "sent (frame_render drawFB s) = sent s"
  by (simp add: frame_render_def)

lemma sent_event_steps [simp]:
  "sent (restore_pixels drawFB restore_screen s) = sent s"
  "sent (push_native_events s) = sent s"
  "sent (generate_events s) = sent s"
  by (simp_all add: restore_pixels_def push_native_events_def generate_events_def Let_def)

lemma sent_frame_events [simp]: "sent (frame_events drawFB restore_screen s) = sent s"
  by (simp add: frame_events_def)

lemma sent_receive_ramwatches:
  "receive_ramwatches inbox s = Inr (s', inbox') \<Longrightarrow> sent s' = sent s"
  by (induction inbox s rule: receive_ramwatches.induct) auto

lemma replies_only_refl [simp]: "replies_only (sent s) s"
  by (simp add: replies_only_def)

lemma replies_only_effect [simp]: "replies_only (sent s) (effect e s)"
  by (simp add: replies_only_def)

lemma replies_only_more:
  "replies_only (before @ ms) s' \<Longrightarrow> MSGB_DO_BACKTRACK_SAVESTATE \<notin> set ms \<Longrightarrow>
     MSGB_START_FRAMEBOUNDARY \<notin> set ms \<Longrightarrow> replies_only before s'"
  by (auto simp: replies_only_def)

lemma sent_send [simp]: "sent (send m s) = sent s @ [m]"
  by (simp add: send_def)

lemma sent_send_framecount_time [simp]:
  "sent (send_framecount_time s) = sent s @ [MSGB_FRAMECOUNT_TIME (framecount s) (ticks s)]"
  by (simp add: send_framecount_time_def)

lemma replies_only_receive_messages:
  "receive_messages p inbox s = Inr (s', inbox') \<Longrightarrow> replies_only (sent s) s'"
  by (induction p inbox s rule: receive_messages.induct)
     (auto simp: Let_def split: if_splits list.splits in_msg.splits dest: replies_only_more)

lemma sent_frameBoundary:
  assumes "frameBoundary pf drawFB restore_screen inbox s = Inr (s', inbox')"
  shows "replies_only (sent (frame_start pf drawFB s) @ [MSGB_START_FRAMEBOUNDARY]) s'"
proof -
  from assms obtain s2 inbox2 s3 where
    watches: "receive_ramwatches inbox
        (effect ResetWatches (send MSGB_START_FRAMEBOUNDARY (frame_start pf drawFB s)))
      = Inr (s2, inbox2)" and
    msgs: "receive_messages 0 inbox2 (frame_render drawFB s2) = Inr (s3, inbox')" and
    sent': "sent s' = sent (frame_events drawFB restore_screen s3)"
    by (auto simp: frameBoundary_def Let_def split: sum.splits prod.splits)
  from sent_receive_ramwatches [OF watches]
  have "sent (frame_render drawFB s2) = sent (frame_start pf drawFB s) @ [MSGB_START_FRAMEBOUNDARY]"
    by simp
  with replies_only_receive_messages [OF msgs] sent' show ?thesis
    by (simp add: replies_only_def)
qed

text \<open>
  C4 (as amended). Before \<open>MSGB_START_FRAMEBOUNDARY\<close> the frame boundary sends
  \<open>MSGB_DO_BACKTRACK_SAVESTATE\<close> if and only if a backtrack savestate was requested
  (\<open>saveBacktrack\<close>), the configuration has backtrack savestates on
  (\<open>shared_config.backtrack_savestate\<close>) and a savestate was done before
  (\<open>didASavestate\<close>). In the state in which the start marker is sent the request
  flag is clear. When the frame boundary returns, the messages it has sent are those,
  then the start marker, then replies that are neither of the two.
\<close>

theorem backtrack_notification:
  "\<exists>msgs. sent (frame_start pf drawFB s) = sent s @ msgs
      \<and> (MSGB_DO_BACKTRACK_SAVESTATE \<in> set msgs \<longleftrightarrow>
           saveBacktrack s \<and> backtrack_savestate (shared_config s) \<and> didASavestate s)
      \<and> MSGB_START_FRAMEBOUNDARY \<notin> set msgs
      \<and> \<not> saveBacktrack (frame_start pf drawFB s)
      \<and> (\<forall>s' inbox'. frameBoundary pf drawFB restore_screen inbox s = Inr (s', inbox') \<longrightarrow>
           (\<exists>later. sent s' = sent s @ msgs @ [MSGB_START_FRAMEBOUNDARY] @ later
              \<and> MSGB_DO_BACKTRACK_SAVESTATE \<notin> set later
              \<and> MSGB_START_FRAMEBOUNDARY \<notin> set later))"
proof -
  from sent_frame_start [of pf drawFB s] obtain before where
    start: "sent (frame_start pf drawFB s) =
      sent s @ before @
        (if saveBacktrack s \<and> backtrack_savestate (shared_config s) \<and> didASavestate s
         then [MSGB_DO_BACKTRACK_SAVESTATE] else [])" and
    before: "MSGB_DO_BACKTRACK_SAVESTATE \<notin> set before" "MSGB_START_FRAMEBOUNDARY \<notin> set before"
    by blast
  let ?msgs = "before @
        (if saveBacktrack s \<and> backtrack_savestate (shared_config s) \<and> didASavestate s
         then [MSGB_DO_BACKTRACK_SAVESTATE] else [])"
  have "sent (frame_start pf drawFB s) = sent s @ ?msgs"
    using start by simp
  moreover have "MSGB_DO_BACKTRACK_SAVESTATE \<in> set ?msgs \<longleftrightarrow>
      saveBacktrack s \<and> backtrack_savestate (shared_config s) \<and> didASavestate s"
    using before by simp
  moreover have "MSGB_START_FRAMEBOUNDARY \<notin> set ?msgs"
    using before by simp
  moreover have "\<not> saveBacktrack (frame_start pf drawFB s)"
    by simp
  moreover have "\<exists>later. sent s' = sent s @ ?msgs @ [MSGB_START_FRAMEBOUNDARY] @ later
      \<and> MSGB_DO_BACKTRACK_SAVESTATE \<notin> set later \<and> MSGB_START_FRAMEBOUNDARY \<notin> set later"
    if "frameBoundary pf drawFB restore_screen inbox s = Inr (s', inbox')" for s' inbox'
    using sent_frameBoundary [OF that] start by (auto simp: replies_only_def)
  ultimately show ?thesis by blast
qed

lemmas frame_steps = frame_start_def update_time_def computeFPS_def
  send_gameinfo_def send_fps_def ask_backtrack_savestate_def send_framecount_time_def
  frame_render_def count_nondraw_def update_title_def store_pixels_def hud_when_def
  hud_render_def encode_frame_def draw_frame_def frame_events_def restore_pixels_def
  push_native_events_def generate_events_def skipDraw_def effect_def send_def
  screen_redraw_def pushQuitEvent_def

text \<open>
  A backtrack savestate is requested and a savestate was done, but the configuration
  has backtrack savestates off: the notice is not sent.
\<close>

theorem backtrack_counterexample:
  "saveBacktrack backtrack_state \<and> didASavestate backtrack_state
   \<and> sent backtrack_state = []
   \<and> MSGB_DO_BACKTRACK_SAVESTATE \<notin> set (sent (frame_start integral_floats True backtrack_state))
   \<and> \<not> ((MSGB_DO_BACKTRACK_SAVESTATE \<in> set (sent (frame_start integral_floats True backtrack_state)))
          \<longleftrightarrow> (saveBacktrack backtrack_state \<and> didASavestate backtrack_state))"
  by (simp add: backtrack_state_def start_state_def plain_config_def integral_floats_def
        frame_steps Let_def)

theorem backtrack_notification_witness:
  "sent (frame_start integral_floats True backtrack_on_state) =
     [MSGB_ALERT_MSG ''alert'', MSGB_FRAMECOUNT_TIME 1 \<lparr>tv_sec = 1, tv_nsec = 0\<rparr>,
      MSGB_GAMEINFO \<lparr>tosend = True, video_sdl1 = False, video_sdl2 = True\<rparr>, MSGB_FPS 0 0,
      MSGB_DO_BACKTRACK_SAVESTATE]
   \<and> \<not> saveBacktrack (frame_start integral_floats True backtrack_on_state)
   \<and> (case frameBoundary integral_floats True False [MSGN_OTHER 0, MSGN_END_FRAMEBOUNDARY]
             backtrack_on_state of
         Inr (s', left) \<Rightarrow>
           sent s' = sent (frame_start integral_floats True backtrack_on_state)
                       @ [MSGB_START_FRAMEBOUNDARY]
           \<and> \<not> saveBacktrack s'
       | Inl e \<Rightarrow> False)"
proof -
  have start: "sent (frame_start integral_floats True backtrack_on_state) =
     [MSGB_ALERT_MSG ''alert'', MSGB_FRAMECOUNT_TIME 1 \<lparr>tv_sec = 1, tv_nsec = 0\<rparr>,
      MSGB_GAMEINFO \<lparr>tosend = True, video_sdl1 = False, video_sdl2 = True\<rparr>, MSGB_FPS 0 0,
      MSGB_DO_BACKTRACK_SAVESTATE]"
    by (simp add: backtrack_on_state_def backtrack_state_def start_state_def plain_config_def
          integral_floats_def frame_steps Let_def)
  have run: "(case frameBoundary integral_floats True False [MSGN_OTHER 0, MSGN_END_FRAMEBOUNDARY]
             backtrack_on_state of
         Inr (s', left) \<Rightarrow>
           sent s' = sent (frame_start integral_floats True backtrack_on_state)
                       @ [MSGB_START_FRAMEBOUNDARY]
           \<and> \<not> saveBacktrack s'
       | Inl e \<Rightarrow> False)"
    apply (simp only: frameBoundary_def Let_def)
    apply (simp only: receive_ramwatches.simps receive_messages.simps sum.case prod.case)
    apply (simp add: backtrack_on_state_def backtrack_state_def start_state_def plain_config_def
          integral_floats_def frame_steps Let_def)
    done
  have flag: "\<not> saveBacktrack (frame_start integral_floats True backtrack_on_state)"
    by simp
  from backtrack_notification [of integral_floats True backtrack_on_state False
         "[MSGN_OTHER 0, MSGN_END_FRAMEBOUNDARY]"]
  show ?thesis
    by (intro conjI) (rule start flag run)+
qed

subsection \<open>The calls made after the messages\<close>

lemma effects_effect [simp]: "effects (effect e s) = effects s @ [e]"
  by (simp add: effect_def)

lemma effects_kept_by_event_steps:
  "e \<in> set (effects s) \<Longrightarrow> e \<in> set (effects (restore_pixels drawFB restore_screen s))"
  "e \<in> set (effects s) \<Longrightarrow> e \<in> set (effects (push_native_events s))"
  "e \<in> set (effects s) \<Longrightarrow> e \<in> set (effects (generate_events s))"
  by (simp_all add: restore_pixels_def push_native_events_def generate_events_def Let_def)

lemma effects_kept_by_frame_events:
  "e \<in> set (effects s) \<Longrightarrow> e \<in> set (effects (frame_events drawFB restore_screen s))"
  by (simp add: frame_events_def Let_def effects_kept_by_event_steps)

lemma last_effect_of_frame_events:
  "last (effects (frame_events drawFB restore_screen s)) = SyncEvents"
  by (simp add: frame_events_def Let_def)

lemma is_exiting_effect [simp]: "is_exiting (effect e s) = is_exiting s"
  by (simp add: effect_def)

lemma is_exiting_event_steps [simp]:
  "is_exiting (restore_pixels drawFB restore_screen s) = is_exiting s"
  "is_exiting (push_native_events s) = is_exiting s"
  "is_exiting (generate_events s) = is_exiting s"
  by (simp_all add: restore_pixels_def push_native_events_def generate_events_def Let_def)

lemma is_exiting_frame_events [simp]:
  "is_exiting (frame_events drawFB restore_screen s) = is_exiting s"
  by (simp add: frame_events_def Let_def)

lemma is_exiting_start_steps [simp]:
  "is_exiting (send m s) = is_exiting s"
  "is_exiting (computeFPS pf s) = is_exiting s"
  "is_exiting (update_time pf drawFB s) = is_exiting s"
  "is_exiting (send_framecount_time s) = is_exiting s"
  "is_exiting (send_gameinfo s) = is_exiting s"
  "is_exiting (send_fps s) = is_exiting s"
  "is_exiting (ask_backtrack_savestate s) = is_exiting s"
  by (simp_all add: send_def computeFPS_def update_time_def effect_def send_framecount_time_def
        send_gameinfo_def send_fps_def ask_backtrack_savestate_def Let_def)

lemma is_exiting_send_alerts [simp]: "is_exiting (send_alerts as s) = is_exiting s"
  by (induction as arbitrary: s) simp_all

lemma is_exiting_frame_start [simp]: "is_exiting (frame_start pf drawFB s) = is_exiting s"
  by (simp add: frame_start_def Let_def)

lemma is_exiting_hud_render [simp]: "is_exiting (hud_render p s) = is_exiting s"
  by (simp add: hud_render_def Let_def split: option.splits)

lemma is_exiting_render_steps [simp]:
  "is_exiting (count_nondraw drawFB s) = is_exiting s"
  "is_exiting (update_title s) = is_exiting s"
  "is_exiting (store_pixels drawFB s) = is_exiting s"
  "is_exiting (hud_when b s) = is_exiting s"
  "is_exiting (encode_frame drawFB s) = is_exiting s"
  "is_exiting (draw_frame s) = is_exiting s"
  by (simp_all add: count_nondraw_def update_title_def store_pixels_def hud_when_def
        encode_frame_def draw_frame_def)

lemma is_exiting_frame_render [simp]: "is_exiting (frame_render drawFB s) = is_exiting s"
  by (simp add: frame_render_def Let_def)

lemma shift_one_stop: "shift_one n = Inl e \<Longrightarrow> e = UndefinedShift"
  by (simp add: shift_one_def split: if_splits)

lemma skipDraw_stop: "skipDraw pf cfg f c = Inl e \<Longrightarrow> e = UndefinedShift"
  by (auto simp: skipDraw_def Let_def split: if_splits sum.splits dest: shift_one_stop)

lemma receive_ramwatches_other:
  "\<forall>w. m \<noteq> MSGN_RAMWATCH w \<Longrightarrow> receive_ramwatches (m # rest) s = Inr (s, rest)"
  by (cases m) simp_all

text \<open>
  C9. When the loop of \<open>receive_messages\<close> reads, at the head of an iteration, a tag
  that is none of the cases of its switch (\<open>MSGN_RAMWATCH\<close> is none of them
  either), it logs ``Unknown message
  received'' and returns, as it returns on \<open>MSGN_END_FRAMEBOUNDARY\<close>, with the state
  otherwise unchanged and the later messages unread. The frame boundary then goes on to
  its end: the events are pushed and synchronised and the function returns, unless the
  shift in \<open>skipDraw\<close> is undefined. Nothing is reported to the game: the function
  returns no value and \<open>is_exiting\<close> keeps its value.
\<close>

theorem unknown_message_ends_loop:
  "receive_messages preview_ai (MSGN_OTHER tag # rest) s
     = Inr (effect (Log ''Unknown message received'') s, rest)
   \<and> receive_messages preview_ai (MSGN_RAMWATCH w # rest) s
     = Inr (effect (Log ''Unknown message received'') s, rest)
   \<and> receive_messages preview_ai (MSGN_END_FRAMEBOUNDARY # rest) s = Inr (s, rest)
   \<and> ((\<forall>w. m \<noteq> MSGN_RAMWATCH w) \<longrightarrow>
        (case frameBoundary pf drawFB restore_screen (m # MSGN_OTHER tag # rest) s of
           Inr (s', left) \<Rightarrow>
             left = rest
             \<and> Log ''Unknown message received'' \<in> set (effects s')
             \<and> last (effects s') = SyncEvents
             \<and> framecount s' = framecount s + 1
             \<and> is_exiting s' = is_exiting s
           | Inl e \<Rightarrow> e = UndefinedShift))"
proof -
  have "(case frameBoundary pf drawFB restore_screen (m # MSGN_OTHER tag # rest) s of
           Inr (s', left) \<Rightarrow>
             left = rest
             \<and> Log ''Unknown message received'' \<in> set (effects s')
             \<and> last (effects s') = SyncEvents
             \<and> framecount s' = framecount s + 1
             \<and> is_exiting s' = is_exiting s
           | Inl e \<Rightarrow> e = UndefinedShift)"
    if other: "\<forall>w. m \<noteq> MSGN_RAMWATCH w"
  proof -
    define s1 where "s1 = effect ResetWatches (send MSGB_START_FRAMEBOUNDARY (frame_start pf drawFB s))"
    define s3 where "s3 = effect (Log ''Unknown message received'') (frame_render drawFB s1)"
    define s4 where "s4 = frame_events drawFB restore_screen s3"
    have run: "frameBoundary pf drawFB restore_screen (m # MSGN_OTHER tag # rest) s =
      (case skipDraw pf (shared_config s4) (fps s4) (skip_counter s4) of
         Inl e \<Rightarrow> Inl e
       | Inr (skip, counter) \<Rightarrow>
           Inr (s4\<lparr>skipping_draw := skip, skip_counter := counter,
                   ticks := exit_ticks pf (ticks s4)\<rparr>, rest))"
      unfolding s1_def s3_def s4_def
      by (simp add: frameBoundary_def Let_def receive_ramwatches_other [OF other])
    have count: "framecount s4 = framecount s + 1"
      by (simp add: s4_def s3_def s1_def)
    have logged: "Log ''Unknown message received'' \<in> set (effects s4)"
      unfolding s4_def by (rule effects_kept_by_frame_events) (simp add: s3_def)
    have synced: "last (effects s4) = SyncEvents"
      by (simp add: s4_def last_effect_of_frame_events)
    have exiting: "is_exiting s4 = is_exiting s"
      by (simp add: s4_def s3_def s1_def)
    show ?thesis
    proof (cases "skipDraw pf (shared_config s4) (fps s4) (skip_counter s4)")
      case (Inl e)
      with skipDraw_stop [OF Inl] show ?thesis
        by (simp add: run)
    next
      case (Inr decision)
      with count logged synced exiting show ?thesis
        by (cases decision) (simp add: run)
    qed
  qed
  then show ?thesis by simp
qed

lemma unat_counter_add:
  "unat (c :: ulong) + n < 2 ^ 64 \<Longrightarrow> unat (c + of_nat n) = unat c + n"
  by (simp add: unat_word_ariths unat_of_nat take_bit_nat_eq_self)

text \<open>
  C3. A frame boundary that returns leaves the frame counter at its value on entry plus
  1, whatever the draw flag, the \<open>restore_screen\<close> flag, the messages of the controller
  and the decision to skip the next draw. Successive frame boundaries that all return
  add their number to the counter. The counter is an \<open>unsigned long\<close> and the
  addition is that of the type; as long as the sum stays below \<open>2^64\<close> the value of
  the counter grows by exactly the number of calls.
\<close>

theorem frame_counter:
  "(frameBoundary pf drawFB restore_screen inbox s = Inr (s', inbox') \<longrightarrow>
      framecount s' = framecount s + 1)
   \<and> (frames pf cs msgs t = Inr (t', msgs') \<longrightarrow>
        framecount t' = framecount t + of_nat (length cs)
        \<and> (unat (framecount t) + length cs < 2 ^ 64 \<longrightarrow>
             unat (framecount t') = unat (framecount t) + length cs))"
  using framecount_frameBoundary [of pf drawFB restore_screen inbox s s' inbox']
        framecount_frames [of pf cs msgs t t' msgs']
  by (auto simp: unat_counter_add)

theorem frame_counter_witness:
  "(case frameBoundary integral_floats False True [MSGN_OTHER 0, MSGN_END_FRAMEBOUNDARY]
          start_state of
      Inr (s', left) \<Rightarrow> framecount s' = 1 \<and> nondraw_framecount s' = 1 \<and> left = []
    | Inl e \<Rightarrow> False)
   \<and> (case frames integral_floats [(True, False), (False, True), (True, True)] three_frames
           start_state of
       Inr (s', left) \<Rightarrow> framecount s' = 3 \<and> unat (framecount s') = 3 \<and> left = []
         \<and> skipping_draw s' \<and> nondraw_framecount s' = 1
     | Inl e \<Rightarrow> False)"
proof -
  have one: "(case frameBoundary integral_floats False True [MSGN_OTHER 0, MSGN_END_FRAMEBOUNDARY]
          start_state of
      Inr (s', left) \<Rightarrow> framecount s' = 1 \<and> nondraw_framecount s' = 1 \<and> left = []
    | Inl e \<Rightarrow> False)"
    apply (simp only: frameBoundary_def Let_def receive_ramwatches.simps receive_messages.simps
        sum.case prod.case)
    apply (simp add: frame_steps start_state_def plain_config_def integral_floats_def Let_def
        cong: sum.case_cong_weak prod.case_cong_weak)
    done
  have three: "(case frames integral_floats [(True, False), (False, True), (True, True)]
           three_frames start_state of
       Inr (s', left) \<Rightarrow> framecount s' = 3 \<and> unat (framecount s') = 3 \<and> left = []
         \<and> skipping_draw s' \<and> nondraw_framecount s' = 1
     | Inl e \<Rightarrow> False)"
    apply (simp only: three_frames_def frames.simps frameBoundary_def Let_def fst_conv snd_conv
        receive_ramwatches.simps receive_messages.simps sum.case prod.case)
    apply (simp add: frame_steps start_state_def plain_config_def skip_all_config_def
        integral_floats_def frameBoundary_def Let_def
        cong: sum.case_cong_weak prod.case_cong_weak)
    done
  from frame_counter [where pf = integral_floats and drawFB = False and restore_screen = True
         and inbox = "[MSGN_OTHER 0, MSGN_END_FRAMEBOUNDARY]" and s = start_state
         and cs = "[(True, False), (False, True), (True, True)]" and msgs = three_frames
         and t = start_state]
  show ?thesis
    by (intro conjI) (rule one three)+
qed

theorem unknown_message_ends_loop_witness:
  "(\<forall>w. MSGN_OTHER 0 \<noteq> MSGN_RAMWATCH w)
   \<and> (case frameBoundary integral_floats True False [MSGN_OTHER 0, MSGN_OTHER 99, MSGN_USERQUIT]
            start_state of
        Inr (s', left) \<Rightarrow>
          left = [MSGN_USERQUIT] \<and> framecount s' = 1 \<and> \<not> is_exiting s'
          \<and> effects s' =
              [SetMainThread, ResetWatches, WindowTitleUpdate, StorePixels, HudResetOffsets,
               HudRenderFrame 1, Draw, Log ''Unknown message received'', PushNativeSDLEvents,
               PushNativeXlibEvents, UpdateGameInputs, GenerateKeyUpEvents, GenerateKeyDownEvents,
               GenerateControllerAdded, GenerateControllerEvents, GenerateMouseMotionEvents,
               GenerateMouseButtonEvents, SyncEvents]
      | Inl e \<Rightarrow> False)"
proof -
  have other: "\<forall>w. MSGN_OTHER 0 \<noteq> MSGN_RAMWATCH w"
    by simp
  have run: "(case frameBoundary integral_floats True False
            [MSGN_OTHER 0, MSGN_OTHER 99, MSGN_USERQUIT] start_state of
        Inr (s', left) \<Rightarrow>
          left = [MSGN_USERQUIT] \<and> framecount s' = 1 \<and> \<not> is_exiting s'
          \<and> effects s' =
              [SetMainThread, ResetWatches, WindowTitleUpdate, StorePixels, HudResetOffsets,
               HudRenderFrame 1, Draw, Log ''Unknown message received'', PushNativeSDLEvents,
               PushNativeXlibEvents, UpdateGameInputs, GenerateKeyUpEvents, GenerateKeyDownEvents,
               GenerateControllerAdded, GenerateControllerEvents, GenerateMouseMotionEvents,
               GenerateMouseButtonEvents, SyncEvents]
      | Inl e \<Rightarrow> False)"
    apply (simp only: frameBoundary_def Let_def receive_ramwatches.simps receive_messages.simps
        sum.case prod.case)
    apply (simp add: frame_steps start_state_def plain_config_def integral_floats_def Let_def
        cong: sum.case_cong_weak prod.case_cong_weak)
    done
  from unknown_message_ends_loop [where preview_ai = 0 and tag = 99
         and rest = "[MSGN_USERQUIT]" and s = start_state and m = "MSGN_OTHER 0"
         and pf = integral_floats and drawFB = True and restore_screen = False]
  show ?thesis
    by (intro conjI) (rule other run)+
qed

text \<open>
  C5. In fast-forward, while running, without AV dumping and without the mode that skips
  all rendering, for an fps above 1 whose decrement has a biased exponent below 129 (a
  value below 4.0, that is an fps below 5.0), the shift count
  \<open>(skip_freq >> 23) - 126 - 3\<close> wraps around below zero and \<open>1U << count\<close> is
  undefined: the floor of 4 that follows is applied to no defined value.
\<close>

theorem skipDraw_low_fps:
  assumes "fastforward cfg" and "running cfg" and "\<not> av_dumping cfg" and "\<not> ff_rendering cfg"
      and "gt_one pf fps_v"
      and "drop_bit 23 (bits pf (decrement pf fps_v)) < 129"
  shows "skipDraw pf cfg fps_v counter = Inl UndefinedShift"
proof -
  let ?e = "drop_bit 23 (bits pf (decrement pf fps_v))"
  from assms(6) have "\<not> ?e - 126 - 3 < 32"
    by (simp add: word_less_nat_alt unat_sub_if' split: if_splits)
  with assms show ?thesis
    by (simp add: skipDraw_def shift_one_def)
qed

theorem skipDraw_low_fps_witness:
  "fastforward fast_config \<and> running fast_config \<and> \<not> av_dumping fast_config
   \<and> \<not> ff_rendering fast_config \<and> gt_one integral_floats 3
   \<and> bits integral_floats (decrement integral_floats 3) = 0x40000000
   \<and> drop_bit 23 (bits integral_floats (decrement integral_floats 3)) - 126 - 3 = 0xFFFFFFFF
   \<and> skipDraw integral_floats fast_config 3 0 = Inl UndefinedShift
   \<and> skipDraw integral_floats fast_config 100 2 = Inr (True, 3)
   \<and> skipDraw integral_floats fast_config 100 15 = Inr (False, 0)"
  using skipDraw_low_fps [of fast_config integral_floats 3 0]
  by (simp add: skipDraw_def integral_floats_def fast_config_def plain_config_def shift_one_def
      float_bits_def log2.simps drop_bit_eq_div)

lemma shift_count_in_range:
  fixes e :: uint
  assumes "129 \<le> e" and "e \<le> 160"
  shows "shift_one (e - 129) = Inr (2 ^ (unat e - 129))"
proof -
  from assms have n: "unat (e - 129) = unat e - 129" and small: "unat e - 129 < 32"
    by (simp_all add: word_le_nat_alt unat_sub_if' split: if_splits)
  from small n have "e - 129 < 32"
    by (simp add: word_less_nat_alt)
  then show ?thesis
    by (simp add: shift_one_def n)
qed

lemma shift_count_out_of_range:
  fixes e :: uint
  assumes "\<not> (129 \<le> e \<and> e \<le> 160)"
  shows "shift_one (e - 129) = Inl UndefinedShift"
proof -
  from assms have "\<not> e - 129 < 32"
    by (auto simp: word_le_nat_alt word_less_nat_alt unat_sub_if' split: if_splits)
  then show ?thesis
    by (simp add: shift_one_def)
qed

lemma floor_four: "(if freq < 4 then 4 else freq) = max 4 (freq :: uint)"
  by (auto simp: max_def)

text \<open>
  What \<open>skipDraw\<close> returns in every case, with \<open>e\<close> the biased exponent of the
  decremented fps: no skip outside fast-forward, when not running and when dumping;
  skip in the mode that skips all rendering; otherwise, for an fps above 1, a frequency
  of \<open>2^(e - 129)\<close> when \<open>129 \<le> e \<le> 160\<close> and an undefined shift when not, and a
  frequency of 1 for an fps that is not above 1. The frequency is raised to 4 when
  it is below; the draw is made when the incremented counter reaches the frequency, and
  the counter starts again at 0.
\<close>

theorem skipDraw_decision:
  "skipDraw pf cfg fps_v counter =
     (let e = drop_bit 23 (bits pf (decrement pf fps_v)) in
      if \<not> (fastforward cfg \<and> running cfg \<and> \<not> av_dumping cfg) then Inr (False, counter)
      else if ff_rendering cfg then Inr (True, counter)
      else if gt_one pf fps_v \<and> \<not> (129 \<le> e \<and> e \<le> 160) then Inl UndefinedShift
      else
        let skip_freq = (if gt_one pf fps_v then max 4 (2 ^ (unat e - 129)) else 4)
        in if counter + 1 \<ge> skip_freq then Inr (False, 0) else Inr (True, counter + 1))"
proof (cases "gt_one pf fps_v")
  case False
  then show ?thesis
    by (simp add: skipDraw_def Let_def)
next
  case True
  show ?thesis
  proof (cases "129 \<le> drop_bit 23 (bits pf (decrement pf fps_v))
      \<and> drop_bit 23 (bits pf (decrement pf fps_v)) \<le> 160")
    case in_range: True
    then show ?thesis
      using True
      by (simp add: skipDraw_def Let_def shift_count_in_range floor_four)
  next
    case out: False
    from shift_count_out_of_range [OF out] True out show ?thesis
      by (simp add: skipDraw_def Let_def)
  qed
qed

end
